theory Spec2Isabelle
  imports Main
begin

section \<open>Foodgram: the data model (recipes/models.py, users/models.py)\<close>

text \<open>
  Every Django model is a record and every table a list of rows in insertion order.
  Primary keys are natural numbers. The payload of a write request holds the objects the
  field-level \<open>PrimaryKeyRelatedField\<close>s have already resolved, so a tag or an ingredient
  in a payload is written as its primary key. Strings are byte strings (UTF-8).
\<close>

record user =
  user_id :: nat
  username :: string
  first_name :: string
  last_name :: string

record ingredient =
  ingredient_id :: nat
  ingredient_name :: string
  measurement_unit :: string

text \<open>
  \<open>Recipe.pub_date\<close> is declared \<open>DateTimeField(auto_now=True)\<close>: the field is set to the
  current time on every save of the row. Time is a natural number (a clock reading).
\<close>

record recipe =
  recipe_id :: nat
  recipe_author :: "nat option"
  recipe_name :: string
  recipe_image :: string
  recipe_text :: string
  cooking_time :: int
  pub_date :: nat

record ingredient_in_recipe =
  iir_recipe :: nat
  iir_ingredient :: nat
  amount :: nat

text \<open>\<open>Subscribe\<close>: \<open>sub_user\<close> is the follower, \<open>sub_author\<close> the followed user.\<close>

record subscribe_row =
  subscribe_id :: nat
  sub_user :: nat
  sub_author :: nat

record short_link_row =
  original_url :: string
  short_link :: string

text \<open>
  The database. \<open>Favorite\<close> and \<open>ShoppingCart\<close> rows are (user, recipe) pairs, the rows of
  the many-to-many table behind \<open>Recipe.tags\<close> are (recipe, tag) pairs. The two sequences
  give the next primary key of \<open>Recipe\<close> and of \<open>Subscribe\<close>.
\<close>

record db =
  User_objects :: "user list"
  Ingredient_objects :: "ingredient list"
  Recipe_objects :: "recipe list"
  Recipe_tags :: "(nat \<times> nat) list"
  IngredientInRecipe_objects :: "ingredient_in_recipe list"
  Favorite_objects :: "(nat \<times> nat) list"
  ShoppingCart_objects :: "(nat \<times> nat) list"
  Subscribe_objects :: "subscribe_row list"
  ShortLink_objects :: "short_link_row list"
  Recipe_seq :: nat
  Subscribe_seq :: nat

section \<open>Exceptions and responses\<close>

text \<open>
  The messages of \<open>api/constants.py\<close> are not part of the sources; each constant the
  serializer raises is a constructor of its own, named as the import names it.
\<close>

datatype validation_message =
    INGREDIENTS_FIELD_EMPTY
  | TAGS_FIELD_EMPTY
  | COOKING_TIME_MIN_ERROR
  | TAGS_EMPTY_ERROR
  | TAGS_UNIQUE_ERROR
  | INGREDIENTS_EMPTY_ERROR
  | INGREDIENTS_UNIQUE_ERROR

datatype exn =
    Http404
  | KeyError
  | ValueError
  | IntegrityError
  | MultipleObjectsReturned
  | ValidationError validation_message

text \<open>The literal messages of api/views.py (Russian in the source), by their meaning.\<close>

datatype message =
    Recipe_not_found
  | Recipe_already_added
  | Recipe_already_removed
  | Already_subscribed
  | Cannot_subscribe_to_self
  | Not_subscribed

text \<open>
  What a \<open>Response\<close> carries: nothing, a bare message, a message under the key
  \<open>error\<close> or \<open>errors\<close>, the \<open>RecipeInfoSerializer\<close> data (id, name, image,
  cooking time), the serialized author of a subscription (abbreviated to the author's id),
  a list of such authors, the \<open>short-link\<close> dictionary, or a plain-text attachment
  (file name and body).
\<close>

datatype content =
    Empty
  | Message message
  | Error_key message
  | Errors_key message
  | RecipeInfo nat string string int
  | SubscribeData nat
  | SubscribeList "nat list"
  | ShortLinkData string
  | Attachment string string

datatype response = Response content nat

definition HTTP_200_OK :: nat where "HTTP_200_OK = 200"
definition HTTP_201_CREATED :: nat where "HTTP_201_CREATED = 201"
definition HTTP_204_NO_CONTENT :: nat where "HTTP_204_NO_CONTENT = 204"
definition HTTP_400_BAD_REQUEST :: nat where "HTTP_400_BAD_REQUEST = 400"

text \<open>
  The status a client sees. A handler either returns a response or lets an exception
  escape; the framework's exception handler answers \<open>Http404\<close> with 404 and a
  \<open>ValidationError\<close> with 400, any other exception is a server error.
\<close>

fun http_status :: "exn + response \<Rightarrow> nat" where
  "http_status (Inr (Response _ st)) = st"
| "http_status (Inl Http404) = 404"
| "http_status (Inl (ValidationError _)) = 400"
| "http_status (Inl _) = 500"

text \<open>\<open>get_object_or_404(Recipe, pk=pk)\<close> and \<open>get_object_or_404(User, id=id)\<close>.\<close>

definition get_recipe_or_404 :: "db \<Rightarrow> nat \<Rightarrow> exn + recipe" where
  "get_recipe_or_404 s pk =
     (case find (\<lambda>r. recipe_id r = pk) (Recipe_objects s) of
        None \<Rightarrow> Inl Http404
      | Some r \<Rightarrow> Inr r)"

definition get_user_or_404 :: "db \<Rightarrow> nat \<Rightarrow> exn + user" where
  "get_user_or_404 s uid =
     (case find (\<lambda>u. user_id u = uid) (User_objects s) of
        None \<Rightarrow> Inl Http404
      | Some u \<Rightarrow> Inr u)"

text \<open>
  \<open>@transaction.atomic\<close>: the writes of the body are committed when it returns and
  discarded when it raises.
\<close>

definition atomic :: "(db \<Rightarrow> exn + db) \<Rightarrow> db \<Rightarrow> db \<times> (exn + unit)" where
  "atomic body s = (case body s of Inl e \<Rightarrow> (s, Inl e) | Inr s' \<Rightarrow> (s', Inr ()))"

section \<open>The recipe write pipeline (api/serializers.py, RecipeSerializer)\<close>

text \<open>
  The validated data of a recipe write: a dictionary in which a key may be absent (a
  partial update omits what the request omits). An ingredient line item is the pair
  (ingredient, amount).
\<close>

record payload =
  p_ingredients :: "(nat \<times> nat) list option"
  p_tags :: "nat list option"
  p_cooking_time :: "int option"
  p_name :: "string option"
  p_image :: "string option"
  p_text :: "string option"

text \<open>
  Modelled from the spec: \<open>COOKING_TIME_MIN_VALUE\<close> of the absent api/constants.py; the
  spec requires a cooking time of at least 1, as does the model field's validator.
\<close>

definition COOKING_TIME_MIN_VALUE :: int where
  "COOKING_TIME_MIN_VALUE = 1"

text \<open>Python's \<open>not xs\<close> for the result of \<open>data.get(key)\<close>: absent or empty.\<close>

definition falsy :: "'a list option \<Rightarrow> bool" where
  "falsy v = (case v of None \<Rightarrow> True | Some xs \<Rightarrow> xs = [])"

text \<open>
  \<open>RecipeSerializer.validate\<close>, check by check. \<open>data['cooking_time']\<close> raises
  \<open>KeyError\<close> when the key is absent. \<open>len(set(xs))\<close> is \<open>card (set xs)\<close>.
\<close>

definition validate :: "payload \<Rightarrow> exn + payload" where
  "validate data =
     (if falsy (p_ingredients data) then Inl (ValidationError INGREDIENTS_FIELD_EMPTY)
      else if falsy (p_tags data) then Inl (ValidationError TAGS_FIELD_EMPTY)
      else (case p_cooking_time data of
        None \<Rightarrow> Inl KeyError
      | Some ct \<Rightarrow>
          if ct < COOKING_TIME_MIN_VALUE then Inl (ValidationError COOKING_TIME_MIN_ERROR)
          else (case p_tags data of
            None \<Rightarrow> Inl KeyError
          | Some tags \<Rightarrow>
              if length tags = 0 then Inl (ValidationError TAGS_EMPTY_ERROR)
              else if length tags > card (set tags) then Inl (ValidationError TAGS_UNIQUE_ERROR)
              else (case p_ingredients data of
                None \<Rightarrow> Inl KeyError
              | Some ingredients \<Rightarrow>
                  if length ingredients = 0 then Inl (ValidationError INGREDIENTS_EMPTY_ERROR)
                  else
                    let list_ingr = map fst ingredients in
                    if length list_ingr \<noteq> card (set list_ingr)
                    then Inl (ValidationError INGREDIENTS_UNIQUE_ERROR)
                    else Inr data))))"

text \<open>
  \<open>IngredientInRecipe.objects.bulk_create\<close>: the rows are inserted one after the other;
  the constraint \<open>unique_ingredient_in_recipe\<close> on (recipe, ingredient) refuses a row
  whose pair is already stored.
\<close>

fun bulk_create ::
  "ingredient_in_recipe list \<Rightarrow> ingredient_in_recipe list \<Rightarrow> exn + ingredient_in_recipe list"
where
  "bulk_create tbl [] = Inr tbl"
| "bulk_create tbl (r # rs) =
     (if list_ex (\<lambda>x. iir_recipe x = iir_recipe r \<and> iir_ingredient x = iir_ingredient r) tbl
      then Inl IntegrityError
      else bulk_create (tbl @ [r]) rs)"

text \<open>\<open>RecipeSerializer.create_ingredients\<close>.\<close>

definition create_ingredients :: "db \<Rightarrow> nat \<Rightarrow> (nat \<times> nat) list \<Rightarrow> exn + db" where
  "create_ingredients s recipe ingredients =
     (case bulk_create (IngredientInRecipe_objects s)
             (map (\<lambda>ingredient.
                     \<lparr>iir_recipe = recipe, iir_ingredient = fst ingredient,
                      amount = snd ingredient\<rparr>) ingredients) of
        Inl e \<Rightarrow> Inl e
      | Inr tbl \<Rightarrow> Inr (s\<lparr>IngredientInRecipe_objects := tbl\<rparr>))"

text \<open>
  \<open>recipe.tags.set(tags)\<close>: the associations of the recipe with a tag outside \<open>tags\<close> are
  removed, and each tag of \<open>tags\<close> that is not yet associated is added once.
\<close>

definition tags_set :: "db \<Rightarrow> nat \<Rightarrow> nat list \<Rightarrow> db" where
  "tags_set s recipe tags =
     s\<lparr>Recipe_tags :=
         filter (\<lambda>row. fst row \<noteq> recipe \<or> snd row \<in> set tags) (Recipe_tags s)
         @ map (\<lambda>t. (recipe, t))
             (filter (\<lambda>t. (recipe, t) \<notin> set (Recipe_tags s)) (remdups tags))\<rparr>"

text \<open>\<open>validated_data.pop(key)\<close>: \<open>KeyError\<close> when the key is absent.\<close>

definition pop :: "'a option \<Rightarrow> exn + 'a" where
  "pop v = (case v of None \<Rightarrow> Inl KeyError | Some x \<Rightarrow> Inr x)"

text \<open>
  \<open>ModelSerializer.update\<close>, reached through \<open>super().update(instance, validated_data)\<close>
  once \<open>tags\<close> and \<open>ingredients\<close> are popped: every attribute the data still holds is
  assigned and the row is saved, which sets \<open>pub_date\<close> to the current time.
\<close>

definition save_attrs :: "payload \<Rightarrow> nat \<Rightarrow> recipe \<Rightarrow> recipe" where
  "save_attrs data now r =
     r\<lparr>recipe_name := (case p_name data of None \<Rightarrow> recipe_name r | Some v \<Rightarrow> v),
       recipe_image := (case p_image data of None \<Rightarrow> recipe_image r | Some v \<Rightarrow> v),
       recipe_text := (case p_text data of None \<Rightarrow> recipe_text r | Some v \<Rightarrow> v),
       cooking_time := (case p_cooking_time data of None \<Rightarrow> cooking_time r | Some v \<Rightarrow> v),
       pub_date := now\<rparr>"

definition super_update :: "db \<Rightarrow> nat \<Rightarrow> nat \<Rightarrow> payload \<Rightarrow> db" where
  "super_update s now instance data =
     s\<lparr>Recipe_objects :=
         map (\<lambda>r. if recipe_id r = instance then save_attrs data now r else r)
           (Recipe_objects s)\<rparr>"

text \<open>
  \<open>RecipeSerializer.update\<close>, the body under \<open>@transaction.atomic\<close>. \<open>instance\<close> is the
  primary key of the recipe and \<open>now\<close> the clock at the save.
\<close>

definition RecipeSerializer_update :: "nat \<Rightarrow> nat \<Rightarrow> payload \<Rightarrow> db \<Rightarrow> exn + db" where
  "RecipeSerializer_update now instance validated_data s =
     (case pop (p_tags validated_data) of
        Inl e \<Rightarrow> Inl e
      | Inr tags \<Rightarrow>
         (case pop (p_ingredients validated_data) of
            Inl e \<Rightarrow> Inl e
          | Inr ingredients \<Rightarrow>
             (let s1 = s\<lparr>IngredientInRecipe_objects :=
                          filter (\<lambda>x. iir_recipe x \<noteq> instance) (IngredientInRecipe_objects s)\<rparr>;
                  s2 = tags_set s1 instance tags
              in case create_ingredients s2 instance ingredients of
                   Inl e \<Rightarrow> Inl e
                 | Inr s3 \<Rightarrow> Inr (super_update s3 now instance validated_data))))"

text \<open>
  \<open>RecipeSerializer.create\<close>, the body under \<open>@transaction.atomic\<close>, with the author that
  \<open>perform_create\<close> passes to \<open>save\<close>. \<open>Recipe.objects.create\<close> takes the next primary
  key; an absent character field is stored empty and an absent cooking time violates the
  column's NOT NULL constraint.
\<close>

definition RecipeSerializer_create :: "nat \<Rightarrow> nat \<Rightarrow> payload \<Rightarrow> db \<Rightarrow> exn + db" where
  "RecipeSerializer_create now user validated_data s =
     (case pop (p_tags validated_data) of
        Inl e \<Rightarrow> Inl e
      | Inr tags \<Rightarrow>
         (case pop (p_ingredients validated_data) of
            Inl e \<Rightarrow> Inl e
          | Inr ingredients \<Rightarrow>
             (case p_cooking_time validated_data of
                None \<Rightarrow> Inl IntegrityError
              | Some ct \<Rightarrow>
                 (let recipe = Recipe_seq s;
                      s1 = s\<lparr>Recipe_objects := Recipe_objects s @
                                [\<lparr>recipe_id = recipe, recipe_author = Some user,
                                  recipe_name = (case p_name validated_data of None \<Rightarrow> [] | Some v \<Rightarrow> v),
                                  recipe_image = (case p_image validated_data of None \<Rightarrow> [] | Some v \<Rightarrow> v),
                                  recipe_text = (case p_text validated_data of None \<Rightarrow> [] | Some v \<Rightarrow> v),
                                  cooking_time = ct, pub_date = now\<rparr>],
                              Recipe_seq := Suc recipe\<rparr>;
                      s2 = tags_set s1 recipe tags
                  in create_ingredients s2 recipe ingredients))))"

text \<open>
  \<open>RecipeViewSet.queryset = Recipe.objects.all()\<close> under \<open>Meta.ordering = ['-pub_date']\<close>:
  the rows by descending \<open>pub_date\<close>. The database leaves the order of rows with equal
  \<open>pub_date\<close> open; here they keep their table order.
\<close>

definition Recipe_objects_all :: "db \<Rightarrow> recipe list" where
  "Recipe_objects_all s = sort_key (\<lambda>r. - int (pub_date r)) (Recipe_objects s)"

section \<open>Favorites and the shopping cart (api/views.py, RecipeViewSet)\<close>

datatype join_model = Favorite | ShoppingCart

datatype http_method = GET | POST | PUT | PATCH | DELETE

fun objects :: "join_model \<Rightarrow> db \<Rightarrow> (nat \<times> nat) list" where
  "objects Favorite s = Favorite_objects s"
| "objects ShoppingCart s = ShoppingCart_objects s"

fun objects_update :: "join_model \<Rightarrow> (nat \<times> nat) list \<Rightarrow> db \<Rightarrow> db" where
  "objects_update Favorite rows s = s\<lparr>Favorite_objects := rows\<rparr>"
| "objects_update ShoppingCart rows s = s\<lparr>ShoppingCart_objects := rows\<rparr>"

text \<open>
  \<open>RecipeViewSet.add_to\<close>. The \<open>try\<close> around the lookup catches \<open>Http404\<close> and answers
  with status 400.
\<close>

definition add_to :: "db \<Rightarrow> join_model \<Rightarrow> nat \<Rightarrow> nat \<Rightarrow> db \<times> (exn + response)" where
  "add_to s model pk user =
     (case get_recipe_or_404 s pk of
        Inl e \<Rightarrow>
          if e = Http404
          then (s, Inr (Response (Message Recipe_not_found) HTTP_400_BAD_REQUEST))
          else (s, Inl e)
      | Inr recipe \<Rightarrow>
          if list_ex (\<lambda>row. row = (user, recipe_id recipe)) (objects model s)
          then (s, Inr (Response (Message Recipe_already_added) HTTP_400_BAD_REQUEST))
          else (objects_update model (objects model s @ [(user, recipe_id recipe)]) s,
                Inr (Response
                       (RecipeInfo (recipe_id recipe) (recipe_name recipe) (recipe_image recipe)
                          (cooking_time recipe))
                       HTTP_201_CREATED)))"

text \<open>\<open>RecipeViewSet.delete_from\<close>. The lookup is not guarded: \<open>Http404\<close> escapes.\<close>

definition delete_from :: "db \<Rightarrow> join_model \<Rightarrow> nat \<Rightarrow> nat \<Rightarrow> db \<times> (exn + response)" where
  "delete_from s model pk user =
     (case get_recipe_or_404 s pk of
        Inl e \<Rightarrow> (s, Inl e)
      | Inr recipe \<Rightarrow>
          if list_ex (\<lambda>row. row = (user, recipe_id recipe)) (objects model s)
          then (objects_update model
                  (filter (\<lambda>row. row \<noteq> (user, recipe_id recipe)) (objects model s)) s,
                Inr (Response Empty HTTP_204_NO_CONTENT))
          else (s, Inr (Response (Errors_key Recipe_already_removed) HTTP_400_BAD_REQUEST)))"

text \<open>\<open>RecipeViewSet.favorite_or_shopping_cart\<close>, the action behind both URLs.\<close>

definition favorite_or_shopping_cart ::
  "db \<Rightarrow> http_method \<Rightarrow> string \<Rightarrow> nat \<Rightarrow> nat \<Rightarrow> db \<times> (exn + response)"
where
  "favorite_or_shopping_cart s method request_type pk user =
     (let model = (if request_type = ''favorite'' then Favorite else ShoppingCart)
      in if method = POST then add_to s model pk user else delete_from s model pk user)"

section \<open>The shopping list (api/views.py, download_shopping_cart)\<close>

text \<open>\<open>str(n)\<close> of a natural number: its decimal digits.\<close>

function str_nat :: "nat \<Rightarrow> string" where
  "str_nat n =
     (if n < 10 then [''0123456789'' ! n]
      else str_nat (n div 10) @ [''0123456789'' ! (n mod 10)])"
  by pat_completeness auto
termination
  by (relation "measure (\<lambda>n. n)") auto

text \<open>\<open>sep.join(xs)\<close>.\<close>

fun join :: "string \<Rightarrow> string list \<Rightarrow> string" where
  "join sep [] = []"
| "join sep [x] = x"
| "join sep (x # y # ys) = x @ sep @ join sep (y # ys)"

text \<open>
  The query of the view:
  \<open>IngredientInRecipe.objects.filter(recipe__shopping_cart__user=user)\<close> joins every line
  item with the cart rows of its recipe that belong to the user, and
  \<open>values('ingredient__name', 'ingredient__measurement_unit')\<close> joins the ingredient. A
  row of the join is ((name, unit), amount).
\<close>

definition cart_rows :: "db \<Rightarrow> nat \<Rightarrow> ((string \<times> string) \<times> nat) list" where
  "cart_rows s user =
     [((ingredient_name i, measurement_unit i), amount x).
        x \<leftarrow> IngredientInRecipe_objects s,
        c \<leftarrow> ShoppingCart_objects s, fst c = user \<and> snd c = iir_recipe x,
        i \<leftarrow> Ingredient_objects s, ingredient_id i = iir_ingredient x]"

text \<open>
  \<open>.values(k).annotate(quantity=Sum('amount'))\<close>: GROUP BY the key, one row per key with
  the sum of the amounts of its group. The query has no ORDER BY, so the database returns
  the groups in an order of its own; \<open>rank\<close> stands for that order (the groups come by
  ascending rank, and every order of the groups is the one of some \<open>rank\<close>).
\<close>

definition annotate_sum :: "('k \<Rightarrow> nat) \<Rightarrow> ('k \<times> nat) list \<Rightarrow> ('k \<times> nat) list" where
  "annotate_sum rank rows =
     sort_key (\<lambda>g. rank (fst g))
       (map (\<lambda>k. (k, sum_list (map snd (filter (\<lambda>row. fst row = k) rows))))
          (remdups (map fst rows)))"

text \<open>One entry of the list comprehension: \<open>- name (unit) - quantity\<close>.\<close>

definition shopping_line :: "(string \<times> string) \<times> nat \<Rightarrow> string" where
  "shopping_line g =
     ''- '' @ fst (fst g) @ '' '' @ ''('' @ snd (fst g) @ '')'' @ '' - '' @ str_nat (snd g)"

text \<open>The two Russian literals of the header, as UTF-8: "Shopping list for: ", "Date: ".\<close>

definition HEADER_FOR :: string where
  "HEADER_FOR = map char_of
     [0xD0, 0xA1, 0xD0, 0xBF, 0xD0, 0xB8, 0xD1, 0x81, 0xD0, 0xBE, 0xD0, 0xBA, 0x20, 0xD0,
      0xBF, 0xD0, 0xBE, 0xD0, 0xBA, 0xD1, 0x83, 0xD0, 0xBF, 0xD0, 0xBE, 0xD0, 0xBA, 0x20,
      0xD0, 0xB4, 0xD0, 0xBB, 0xD1, 0x8F, 0x3A, 0x20 :: nat]"

definition HEADER_DATE :: string where
  "HEADER_DATE = map char_of [0xD0, 0x94, 0xD0, 0xB0, 0xD1, 0x82, 0xD0, 0xB0, 0x3A, 0x20 :: nat]"

definition newline :: string where
  "newline = [CHR 0x0A]"

text \<open>
  Python's \<open>str.strip()\<close>. \<open>whitespace\<close> lists the characters of \<open>str.isspace\<close> in
  UTF-8: U+0009 to U+000D, U+001C to U+0020, U+0085, U+00A0, U+1680, U+2000 to U+200A,
  U+2028, U+2029, U+202F, U+205F and U+3000. \<open>lstrip_seqs\<close> drops every leading
  occurrence of one of the given byte sequences.
\<close>

definition whitespace :: "string list" where
  "whitespace = map (map char_of)
     [[0x09], [0x0A], [0x0B], [0x0C], [0x0D], [0x1C], [0x1D], [0x1E], [0x1F], [0x20],
      [0xC2, 0x85], [0xC2, 0xA0], [0xE1, 0x9A, 0x80],
      [0xE2, 0x80, 0x80], [0xE2, 0x80, 0x81], [0xE2, 0x80, 0x82], [0xE2, 0x80, 0x83],
      [0xE2, 0x80, 0x84], [0xE2, 0x80, 0x85], [0xE2, 0x80, 0x86], [0xE2, 0x80, 0x87],
      [0xE2, 0x80, 0x88], [0xE2, 0x80, 0x89], [0xE2, 0x80, 0x8A],
      [0xE2, 0x80, 0xA8], [0xE2, 0x80, 0xA9], [0xE2, 0x80, 0xAF], [0xE2, 0x81, 0x9F],
      [0xE3, 0x80, 0x80 :: nat]]"

fun lstrip_seqs :: "string list \<Rightarrow> string \<Rightarrow> string" where
  "lstrip_seqs seqs [] = []"
| "lstrip_seqs seqs (c # cs) =
     (case find (\<lambda>w. w \<noteq> [] \<and> take (length w) (c # cs) = w) seqs of
        None \<Rightarrow> c # cs
      | Some w \<Rightarrow> lstrip_seqs seqs (drop (length w - 1) cs))"

definition strip :: "string \<Rightarrow> string" where
  "strip s = rev (lstrip_seqs (map rev whitespace) (rev (lstrip_seqs whitespace s)))"

text \<open>
  \<open>user.get_full_name()\<close> of Django's \<open>AbstractUser\<close>: first and last name with a blank
  between, stripped.
\<close>

definition get_full_name :: "user \<Rightarrow> string" where
  "get_full_name u = strip (first_name u @ '' '' @ last_name u)"

definition shopping_lines :: "db \<Rightarrow> (string \<times> string \<Rightarrow> nat) \<Rightarrow> nat \<Rightarrow> string list" where
  "shopping_lines s rank user = map shopping_line (annotate_sum rank (cart_rows s user))"

text \<open>
  \<open>RecipeViewSet.download_shopping_cart\<close> for the authenticated \<open>request.user\<close>. The
  clock enters as the two renderings of \<open>timezone.now()\<close> the text uses: \<open>today_dmy\<close> for
  \<open>%d-%m-%Y\<close> and \<open>today_Y\<close> for \<open>%Y\<close>; \<open>rank\<close> is the order in which the database
  returns the groups.
\<close>

definition download_shopping_cart ::
  "db \<Rightarrow> (string \<times> string \<Rightarrow> nat) \<Rightarrow> string \<Rightarrow> string \<Rightarrow> user \<Rightarrow> response"
where
  "download_shopping_cart s rank today_dmy today_Y user =
     (if \<not> list_ex (\<lambda>c. fst c = user_id user) (ShoppingCart_objects s)
      then Response Empty HTTP_400_BAD_REQUEST
      else
        let shopping_list =
              HEADER_FOR @ get_full_name user @ newline @ newline
              @ HEADER_DATE @ today_dmy @ newline @ newline
              @ join newline (shopping_lines s rank (user_id user))
              @ newline @ newline @ ''Foodgram ('' @ today_Y @ '')'';
            filename = username user @ ''_shopping_list.txt''
        in Response (Attachment filename shopping_list) HTTP_200_OK)"

section \<open>Subscriptions (api/views.py, CustomUserViewSet)\<close>

text \<open>
  \<open>CustomUserViewSet.subscribe\<close>; \<open>user\<close> is the primary key of \<open>request.user\<close>, \<open>pk\<close>
  the \<open>id\<close> of the URL. The action accepts POST and DELETE only.
\<close>

definition subscribe :: "db \<Rightarrow> http_method \<Rightarrow> nat \<Rightarrow> nat \<Rightarrow> db \<times> (exn + response)" where
  "subscribe s method user pk =
     (case get_user_or_404 s pk of
        Inl e \<Rightarrow> (s, Inl e)
      | Inr author \<Rightarrow>
         (let subscription =
                filter (\<lambda>r. sub_user r = user \<and> sub_author r = user_id author)
                  (Subscribe_objects s)
          in if method = POST then
               (if subscription \<noteq> []
                then (s, Inr (Response (Error_key Already_subscribed) HTTP_400_BAD_REQUEST))
                else if user = user_id author
                then (s, Inr (Response (Error_key Cannot_subscribe_to_self) HTTP_400_BAD_REQUEST))
                else (s\<lparr>Subscribe_objects := Subscribe_objects s @
                          [\<lparr>subscribe_id = Subscribe_seq s, sub_user = user,
                            sub_author = user_id author\<rparr>],
                        Subscribe_seq := Suc (Subscribe_seq s)\<rparr>,
                      Inr (Response (SubscribeData (user_id author)) HTTP_201_CREATED)))
             else if subscription \<noteq> []
             then (s\<lparr>Subscribe_objects :=
                       filter (\<lambda>r. \<not> (sub_user r = user \<and> sub_author r = user_id author))
                         (Subscribe_objects s)\<rparr>,
                   Inr (Response Empty HTTP_204_NO_CONTENT))
             else (s, Inr (Response (Error_key Not_subscribed) HTTP_400_BAD_REQUEST))))"

text \<open>
  \<open>User.objects.filter(subscribing__user=user)\<close>: the users joined with the subscriptions
  in which they are the author and \<open>user\<close> the follower. The queryset is one of \<open>User\<close>,
  whose \<open>Meta\<close> declares no ordering, and the query has no \<open>order_by\<close>: the rows come in
  the order the database scans them, here the order of the tables.
\<close>

definition follows :: "db \<Rightarrow> nat \<Rightarrow> user list" where
  "follows s user =
     [u. u \<leftarrow> User_objects s, r \<leftarrow> Subscribe_objects s,
         sub_author r = user_id u \<and> sub_user r = user]"

text \<open>\<open>CustomUserViewSet.subscriptions\<close>, all pages of the answer taken together.\<close>

definition subscriptions :: "db \<Rightarrow> nat \<Rightarrow> response" where
  "subscriptions s user = Response (SubscribeList (map user_id (follows s user))) HTTP_200_OK"

text \<open>
  The order the spec asks of the list: by descending subscription id. \<open>newest_first\<close>
  lists the followed authors in that order.
\<close>

definition newest_first :: "db \<Rightarrow> nat \<Rightarrow> nat list" where
  "newest_first s user =
     map sub_author
       (sort_key (\<lambda>r. - int (subscribe_id r))
          (filter (\<lambda>r. sub_user r = user) (Subscribe_objects s)))"

section \<open>Short links (api/views.py, GetRecipeShortLink)\<close>

text \<open>\<open>string.ascii_letters + string.digits\<close>.\<close>

definition characters :: string where
  "characters = ''abcdefghijklmnopqrstuvwxyzABCDEFGHIJKLMNOPQRSTUVWXYZ0123456789''"

text \<open>
  \<open>random.sample(population, k)\<close>, sampling without replacement: \<open>k\<close> times an element
  is drawn from the pool and taken out of it. The randomness is \<open>rng\<close>, the sequence of
  numbers the generator yields; each draw is reduced to the size of the pool that is
  left. A sample larger than the population is a \<open>ValueError\<close>.
\<close>

fun random_sample :: "'a list \<Rightarrow> nat \<Rightarrow> (nat \<Rightarrow> nat) \<Rightarrow> exn + 'a list" where
  "random_sample pool 0 rng = Inr []"
| "random_sample pool (Suc k) rng =
     (if pool = [] then Inl ValueError
      else
        let j = rng 0 mod length pool in
        case random_sample (take j pool @ drop (Suc j) pool) k (\<lambda>i. rng (Suc i)) of
          Inl e \<Rightarrow> Inl e
        | Inr ys \<Rightarrow> Inr (pool ! j # ys))"

text \<open>
  \<open>recipe.get_absolute_url()\<close>, the reverse of the route \<open>recipe-detail\<close>: the mount point
  of api/urls.py (set in the project's URL configuration, not in the sources), then
  \<open>recipes/<pk>/\<close>.
\<close>

definition get_absolute_url :: "string \<Rightarrow> recipe \<Rightarrow> string" where
  "get_absolute_url api_root r = api_root @ ''recipes/'' @ str_nat (recipe_id r) @ ''/''"

text \<open>
  \<open>ShortLink.objects.get_or_create(original_url=url, defaults={'short_link': short_url})\<close>:
  the one stored row of the URL if there is one; \<open>MultipleObjectsReturned\<close> if there are
  several; otherwise a new row, which the \<open>unique\<close> constraint on \<open>short_link\<close> refuses
  when the value is taken (\<open>IntegrityError\<close>, raised again since the lookup still fails).
\<close>

definition get_or_create :: "db \<Rightarrow> string \<Rightarrow> string \<Rightarrow> exn + db \<times> short_link_row" where
  "get_or_create s url short_url =
     (case filter (\<lambda>l. original_url l = url) (ShortLink_objects s) of
        [] \<Rightarrow>
          if list_ex (\<lambda>l. short_link l = short_url) (ShortLink_objects s)
          then Inl IntegrityError
          else
            let link_obj = \<lparr>original_url = url, short_link = short_url\<rparr>
            in Inr (s\<lparr>ShortLink_objects := ShortLink_objects s @ [link_obj]\<rparr>, link_obj)
      | [link_obj] \<Rightarrow> Inr (s, link_obj)
      | _ \<Rightarrow> Inl MultipleObjectsReturned)"

text \<open>
  \<open>GetRecipeShortLink.get\<close>. \<open>environ\<close> is \<open>os.environ\<close> (a missing \<open>DOMEN\<close> is a
  \<open>KeyError\<close>), \<open>rng\<close> the randomness of this request. \<open>mint_token\<close> is the sampled
  token, \<open>''.join(random.sample(characters, k=4))\<close>.
\<close>

definition mint_token :: "(nat \<Rightarrow> nat) \<Rightarrow> exn + string" where
  "mint_token rng = random_sample characters 4 rng"

definition GetRecipeShortLink_get ::
  "db \<Rightarrow> (string \<rightharpoonup> string) \<Rightarrow> string \<Rightarrow> (nat \<Rightarrow> nat) \<Rightarrow> nat \<Rightarrow> db \<times> (exn + response)"
where
  "GetRecipeShortLink_get s environ api_root rng recipe_id' =
     (case get_recipe_or_404 s recipe_id' of
        Inl e \<Rightarrow> (s, Inl e)
      | Inr recipe \<Rightarrow>
         (case environ ''DOMEN'' of
            None \<Rightarrow> (s, Inl KeyError)
          | Some domen \<Rightarrow>
             (case mint_token rng of
                Inl e \<Rightarrow> (s, Inl e)
              | Inr token \<Rightarrow>
                 (let short_url = domen @ ''s/'' @ token
                  in case get_or_create s (get_absolute_url api_root recipe) short_url of
                       Inl e \<Rightarrow> (s, Inl e)
                     | Inr (s', link_obj) \<Rightarrow>
                         (s', Inr (Response (ShortLinkData (short_link link_obj)) HTTP_200_OK))))))"

section \<open>Observations on the database and the inputs of the examples\<close>

text \<open>
  \<open>recipe.ingredient_list\<close> (the related name of \<open>IngredientInRecipe.recipe\<close>) as the
  pairs (ingredient, amount) in table order, and \<open>recipe.tags.all()\<close> as a set.
  \<open>line_item\<close> is the row \<open>create_ingredients\<close> builds from a pair of the payload.
\<close>

definition ingredient_list :: "db \<Rightarrow> nat \<Rightarrow> (nat \<times> nat) list" where
  "ingredient_list s pk =
     map (\<lambda>x. (iir_ingredient x, amount x))
       (filter (\<lambda>x. iir_recipe x = pk) (IngredientInRecipe_objects s))"

definition tags_all :: "db \<Rightarrow> nat \<Rightarrow> nat set" where
  "tags_all s pk = snd ` {row \<in> set (Recipe_tags s). fst row = pk}"

definition line_item :: "nat \<Rightarrow> nat \<times> nat \<Rightarrow> ingredient_in_recipe" where
  "line_item pk ingredient =
     \<lparr>iir_recipe = pk, iir_ingredient = fst ingredient, amount = snd ingredient\<rparr>"

text \<open>
  The validation order as the spec words it: the five checks, the first failing one named
  by the constant the serializer raises for it. \<open>has_duplicates\<close> is the spec's "has
  duplicates" for a list that may be absent.
\<close>

definition has_duplicates :: "'a list option \<Rightarrow> bool" where
  "has_duplicates v = (case v of None \<Rightarrow> False | Some xs \<Rightarrow> \<not> distinct xs)"

definition first_failure ::
  "(nat \<times> nat) list option \<Rightarrow> nat list option \<Rightarrow> int \<Rightarrow> validation_message option"
where
  "first_failure ingredients tags ct =
     (if ingredients = None \<or> ingredients = Some [] then Some INGREDIENTS_FIELD_EMPTY
      else if tags = None \<or> tags = Some [] then Some TAGS_FIELD_EMPTY
      else if \<not> 1 \<le> ct then Some COOKING_TIME_MIN_ERROR
      else if has_duplicates tags then Some TAGS_UNIQUE_ERROR
      else if has_duplicates (map_option (map fst) ingredients) then Some INGREDIENTS_UNIQUE_ERROR
      else None)"

definition empty_db :: db where
  "empty_db =
     \<lparr>User_objects = [], Ingredient_objects = [], Recipe_objects = [], Recipe_tags = [],
      IngredientInRecipe_objects = [], Favorite_objects = [], ShoppingCart_objects = [],
      Subscribe_objects = [], ShortLink_objects = [], Recipe_seq = 1, Subscribe_seq = 1\<rparr>"

definition soup :: recipe where
  "soup = \<lparr>recipe_id = 1, recipe_author = Some 1, recipe_name = ''Soup'', recipe_image = ''soup.png'',
           recipe_text = ''Boil.'', cooking_time = 30, pub_date = 1\<rparr>"

definition db_AB :: db where
  "db_AB = empty_db
     \<lparr>Recipe_objects := [soup],
      Recipe_tags := [(1, 1)],
      IngredientInRecipe_objects :=
        [\<lparr>iir_recipe = 1, iir_ingredient = 1, amount = 1\<rparr>,
         \<lparr>iir_recipe = 1, iir_ingredient = 2, amount = 2\<rparr>],
      Recipe_seq := 2\<rparr>"

definition payload_C :: payload where
  "payload_C = \<lparr>p_ingredients = Some [(3, 3)], p_tags = Some [2], p_cooking_time = Some 30,
                p_name = None, p_image = None, p_text = None\<rparr>"

text \<open>
  The shopping list as the spec words it. A line item is in the user's cart when the
  cart holds the row (user, recipe of the line item); its key is the (name, measurement
  unit) of its ingredient. The groups are the keys of the line items in the cart, and the
  quantity of a group is the sum of the amounts of the line items in the cart with that
  key. \<open>cart_row\<close> is what one line item contributes to the join.
\<close>

definition in_cart :: "db \<Rightarrow> nat \<Rightarrow> ingredient_in_recipe \<Rightarrow> bool" where
  "in_cart s user x = ((user, iir_recipe x) \<in> set (ShoppingCart_objects s))"

definition key_of :: "db \<Rightarrow> ingredient_in_recipe \<Rightarrow> (string \<times> string) option" where
  "key_of s x =
     map_option (\<lambda>i. (ingredient_name i, measurement_unit i))
       (find (\<lambda>i. ingredient_id i = iir_ingredient x) (Ingredient_objects s))"

definition cart_keys :: "db \<Rightarrow> nat \<Rightarrow> (string \<times> string) set" where
  "cart_keys s user =
     {k. \<exists>x \<in> set (IngredientInRecipe_objects s). in_cart s user x \<and> key_of s x = Some k}"

definition cart_total :: "db \<Rightarrow> nat \<Rightarrow> string \<times> string \<Rightarrow> nat" where
  "cart_total s user k =
     sum_list (map amount
       (filter (\<lambda>x. in_cart s user x \<and> key_of s x = Some k) (IngredientInRecipe_objects s)))"

definition cart_row :: "db \<Rightarrow> nat \<Rightarrow> ingredient_in_recipe \<Rightarrow> ((string \<times> string) \<times> nat) list" where
  "cart_row s user x =
     (if in_cart s user x
      then (case key_of s x of None \<Rightarrow> [] | Some k \<Rightarrow> [(k, amount x)])
      else [])"

definition cook :: user where
  "cook = \<lparr>user_id = 1, username = ''cook'', first_name = ''Ann'', last_name = ''Lee''\<rparr>"

definition db_flour :: db where
  "db_flour = empty_db
     \<lparr>User_objects := [cook],
      Ingredient_objects :=
        [\<lparr>ingredient_id = 1, ingredient_name = ''Flour'', measurement_unit = ''g''\<rparr>],
      Recipe_objects :=
        [\<lparr>recipe_id = 1, recipe_author = Some 1, recipe_name = ''X'', recipe_image = ''x.png'',
          recipe_text = ''Mix.'', cooking_time = 10, pub_date = 1\<rparr>,
         \<lparr>recipe_id = 2, recipe_author = Some 1, recipe_name = ''Y'', recipe_image = ''y.png'',
          recipe_text = ''Bake.'', cooking_time = 20, pub_date = 2\<rparr>],
      IngredientInRecipe_objects :=
        [\<lparr>iir_recipe = 1, iir_ingredient = 1, amount = 200\<rparr>,
         \<lparr>iir_recipe = 2, iir_ingredient = 1, amount = 300\<rparr>],
      ShoppingCart_objects := [(1, 1), (1, 2)],
      Recipe_seq := 3\<rparr>"

text \<open>The same database with recipe X alone in the cart, and a user without last name.\<close>

definition db_flour_X :: db where
  "db_flour_X = db_flour\<lparr>ShoppingCart_objects := [(1, 1)]\<rparr>"

definition ann :: user where
  "ann = \<lparr>user_id = 9, username = ''ann'', first_name = ''Ann'', last_name = []\<rparr>"


text \<open>Three users; Alice (1) subscribes to Bob (2), then to Carol (3).\<close>

definition alice :: user where
  "alice = \<lparr>user_id = 1, username = ''alice'', first_name = ''Alice'', last_name = ''A''\<rparr>"
definition bob :: user where
  "bob = \<lparr>user_id = 2, username = ''bob'', first_name = ''Bob'', last_name = ''B''\<rparr>"
definition carol :: user where
  "carol = \<lparr>user_id = 3, username = ''carol'', first_name = ''Carol'', last_name = ''C''\<rparr>"

definition db_users :: db where
  "db_users = empty_db\<lparr>User_objects := [alice, bob, carol]\<rparr>"

definition db_two_subscriptions :: db where
  "db_two_subscriptions = fst (subscribe (fst (subscribe db_users POST 1 2)) POST 1 3)"

text \<open>The same two subscriptions in the other order: first to Carol, then to Bob.\<close>

definition db_carol_then_bob :: db where
  "db_carol_then_bob = fst (subscribe (fst (subscribe db_users POST 1 3)) POST 1 2)"

text \<open>
  Recipe A is created at time 1, recipe B at time 2, and A is updated at time 3: the calls
  of \<open>RecipeSerializer.create\<close> and \<open>RecipeSerializer.update\<close> that \<open>save\<close> makes for
  two POST requests and one PATCH request of user 1 with these data.
\<close>

definition payload_A :: payload where
  "payload_A = \<lparr>p_ingredients = Some [(1, 100)], p_tags = Some [1], p_cooking_time = Some 15,
                p_name = Some ''A'', p_image = Some ''a.png'', p_text = Some ''First.''\<rparr>"

definition payload_B :: payload where
  "payload_B = \<lparr>p_ingredients = Some [(2, 50)], p_tags = Some [1], p_cooking_time = Some 25,
                p_name = Some ''B'', p_image = Some ''b.png'', p_text = Some ''Second.''\<rparr>"

definition db_created_A :: db where
  "db_created_A = fst (atomic (RecipeSerializer_create 1 1 payload_A) empty_db)"

definition db_created_AB :: db where
  "db_created_AB = fst (atomic (RecipeSerializer_create 2 1 payload_B) db_created_A)"

definition db_updated_A :: db where
  "db_updated_A = fst (atomic (RecipeSerializer_update 3 1 payload_A) db_created_AB)"

text \<open>The environment of the short-link example.\<close>

definition environ0 :: "string \<rightharpoonup> string" where
  "environ0 = [''DOMEN'' \<mapsto> ''https://foodgram.example/'']"

text \<open>
  Two recipes; the first get-link request, for recipe 2, stores the link with the token
  \<open>aceg\<close>, the token that the randomness \<open>\<lambda>i. i\<close> samples.
\<close>

definition stew :: recipe where
  "stew = \<lparr>recipe_id = 2, recipe_author = Some 1, recipe_name = ''Stew'', recipe_image = ''stew.png'',
           recipe_text = ''Simmer.'', cooking_time = 90, pub_date = 2\<rparr>"

definition db_two_recipes :: db where
  "db_two_recipes = db_AB\<lparr>Recipe_objects := [soup, stew], Recipe_seq := 3\<rparr>"

definition db_link_taken :: db where
  "db_link_taken = fst (GetRecipeShortLink_get db_two_recipes environ0 ''/api/'' (\<lambda>i. i) 2)"


text \<open>
  The data of a partial update (PATCH) that omits the cooking time and repeats tag 2.
\<close>

definition payload_patch :: payload where
  "payload_patch = \<lparr>p_ingredients = Some [(1, 5)], p_tags = Some [2, 2],
                   p_cooking_time = None, p_name = None, p_image = None, p_text = None\<rparr>"

section \<open>Properties of the recipe write pipeline\<close>

lemma length_card_distinct: "(card (set xs) < length xs) = (\<not> distinct xs)"
proof
  assume "card (set xs) < length xs"
  then show "\<not> distinct xs" using distinct_card[of xs] by auto
next
  assume "\<not> distinct xs"
  then have "card (set xs) \<noteq> length xs" using card_distinct[of xs] by auto
  then show "card (set xs) < length xs" using card_length[of xs] by linarith
qed

lemma length_card_distinct': "(length xs \<noteq> card (set xs)) = (\<not> distinct xs)"
  using distinct_card[of xs] card_distinct[of xs] by auto

lemma validate_Inr:
  assumes "validate d = Inr d'"
  shows "d' = d \<and> (\<exists>M N ct. p_ingredients d = Some M \<and> p_tags d = Some N \<and> p_cooking_time d = Some ct
           \<and> M \<noteq> [] \<and> N \<noteq> [] \<and> 1 \<le> ct \<and> distinct N \<and> distinct (map fst M))"
  using assms
  by (auto simp: validate_def falsy_def COOKING_TIME_MIN_VALUE_def Let_def
        length_card_distinct length_card_distinct' split: option.splits if_splits)

lemma bulk_create_Inr: "bulk_create tbl rs = Inr t \<Longrightarrow> t = tbl @ rs"
proof (induction rs arbitrary: tbl)
  case Nil
  then show ?case by simp
next
  case (Cons r rs)
  from Cons.prems have "bulk_create (tbl @ [r]) rs = Inr t"
    by (simp split: if_splits)
  then have "t = (tbl @ [r]) @ rs" by (rule Cons.IH)
  then show ?case by simp
qed

lemma bulk_create_fresh:
  assumes "distinct (map iir_ingredient rs)"
    and "\<forall>r\<in>set rs. iir_recipe r = pk"
    and "\<forall>x\<in>set tbl. iir_recipe x = pk \<longrightarrow> iir_ingredient x \<notin> iir_ingredient ` set rs"
  shows "bulk_create tbl rs = Inr (tbl @ rs)"
  using assms
proof (induction rs arbitrary: tbl)
  case Nil
  then show ?case by simp
next
  case (Cons r rs)
  have no: "\<not> list_ex (\<lambda>x. iir_recipe x = iir_recipe r \<and> iir_ingredient x = iir_ingredient r) tbl"
    using Cons.prems by (auto simp: list_ex_iff)
  have "bulk_create (tbl @ [r]) rs = Inr ((tbl @ [r]) @ rs)"
  proof (rule Cons.IH)
    show "distinct (map iir_ingredient rs)" using Cons.prems by simp
    show "\<forall>r\<in>set rs. iir_recipe r = pk" using Cons.prems by simp
    show "\<forall>x\<in>set (tbl @ [r]). iir_recipe x = pk \<longrightarrow> iir_ingredient x \<notin> iir_ingredient ` set rs"
      using Cons.prems by auto
  qed
  with no show ?case by simp
qed

lemma create_ingredients_after_delete:
  assumes "distinct (map fst M)"
    and "IngredientInRecipe_objects s = filter (\<lambda>x. iir_recipe x \<noteq> pk) tbl"
  shows "create_ingredients s pk M =
           Inr (s\<lparr>IngredientInRecipe_objects :=
                    filter (\<lambda>x. iir_recipe x \<noteq> pk) tbl @ map (line_item pk) M\<rparr>)"
proof -
  have "bulk_create (filter (\<lambda>x. iir_recipe x \<noteq> pk) tbl) (map (line_item pk) M)
          = Inr (filter (\<lambda>x. iir_recipe x \<noteq> pk) tbl @ map (line_item pk) M)"
  proof (rule bulk_create_fresh[where pk = pk])
    have e: "map iir_ingredient (map (line_item pk) M) = map fst M"
      by (induction M) (simp_all add: line_item_def)
    show "distinct (map iir_ingredient (map (line_item pk) M))"
      unfolding e by (rule assms(1))
    show "\<forall>r\<in>set (map (line_item pk) M). iir_recipe r = pk"
      by (auto simp: line_item_def)
    show "\<forall>x\<in>set (filter (\<lambda>x. iir_recipe x \<noteq> pk) tbl).
            iir_recipe x = pk \<longrightarrow> iir_ingredient x \<notin> iir_ingredient ` set (map (line_item pk) M)"
      by simp
  qed
  then show ?thesis
    using assms(2) by (simp add: create_ingredients_def line_item_def[abs_def])
qed

lemma ingredient_list_replaced:
  "map (\<lambda>x. (iir_ingredient x, amount x))
     (filter (\<lambda>x. iir_recipe x = pk) (filter (\<lambda>x. iir_recipe x \<noteq> pk) tbl @ map (line_item pk) M)) = M"
proof -
  have a: "filter (\<lambda>x. iir_recipe x = pk) (filter (\<lambda>x. iir_recipe x \<noteq> pk) tbl) = []"
    by (induction tbl) auto
  have b: "filter (\<lambda>x. iir_recipe x = pk) (map (line_item pk) M) = map (line_item pk) M"
    by (induction M) (auto simp: line_item_def)
  have c: "map (\<lambda>x. (iir_ingredient x, amount x)) (map (line_item pk) M) = M"
    by (induction M) (auto simp: line_item_def)
  show ?thesis by (simp only: filter_append a b append_Nil c)
qed

lemma tags_all_tags_set: "tags_all (tags_set s pk N) pk = set N"
  by (auto simp: tags_all_def tags_set_def image_iff)

lemma tags_all_other: "q \<noteq> pk \<Longrightarrow> tags_all (tags_set s pk N) q = tags_all s q"
  by (auto simp: tags_all_def tags_set_def image_iff)

lemma update_valid:
  assumes "p_ingredients d = Some M" "p_tags d = Some N" "distinct (map fst M)"
  shows "RecipeSerializer_update now pk d s =
     Inr (super_update
            ((tags_set (s\<lparr>IngredientInRecipe_objects :=
                           filter (\<lambda>x. iir_recipe x \<noteq> pk) (IngredientInRecipe_objects s)\<rparr>) pk N)
               \<lparr>IngredientInRecipe_objects :=
                  filter (\<lambda>x. iir_recipe x \<noteq> pk) (IngredientInRecipe_objects s)
                  @ map (line_item pk) M\<rparr>)
            now pk d)"
proof -
  let ?s1 = "s\<lparr>IngredientInRecipe_objects :=
                 filter (\<lambda>x. iir_recipe x \<noteq> pk) (IngredientInRecipe_objects s)\<rparr>"
  have "IngredientInRecipe_objects (tags_set ?s1 pk N)
          = filter (\<lambda>x. iir_recipe x \<noteq> pk) (IngredientInRecipe_objects s)"
    by (simp add: tags_set_def)
  from create_ingredients_after_delete[OF assms(3) this]
  show ?thesis using assms(1,2)
    by (simp add: RecipeSerializer_update_def pop_def Let_def)
qed

lemma filter_other:
  "q \<noteq> pk \<Longrightarrow>
     filter (\<lambda>x. iir_recipe x = q) (filter (\<lambda>x. iir_recipe x \<noteq> pk) tbl)
       = filter (\<lambda>x. iir_recipe x = q) tbl"
  by (induction tbl) auto

lemma update_Inr:
  assumes "RecipeSerializer_update now pk d s = Inr s'"
  shows "\<exists>M N. p_ingredients d = Some M \<and> p_tags d = Some N
           \<and> ingredient_list s' pk = M \<and> tags_all s' pk = set N
           \<and> (\<forall>q. q \<noteq> pk \<longrightarrow>
                 ingredient_list s' q = ingredient_list s q \<and> tags_all s' q = tags_all s q)"
proof -
  from assms obtain M N where MN: "p_ingredients d = Some M" "p_tags d = Some N"
    by (auto simp: RecipeSerializer_update_def pop_def split: option.splits)
  let ?s2 = "tags_set (s\<lparr>IngredientInRecipe_objects :=
                 filter (\<lambda>x. iir_recipe x \<noteq> pk) (IngredientInRecipe_objects s)\<rparr>) pk N"
  from assms MN obtain s3 where s3: "create_ingredients ?s2 pk M = Inr s3"
      and s': "s' = super_update s3 now pk d"
    by (auto simp: RecipeSerializer_update_def pop_def Let_def split: sum.splits)
  from s3 obtain t where t: "bulk_create (IngredientInRecipe_objects ?s2) (map (line_item pk) M) = Inr t"
      and s3': "s3 = ?s2\<lparr>IngredientInRecipe_objects := t\<rparr>"
    by (auto simp: create_ingredients_def line_item_def[abs_def] split: sum.splits)
  have "t = IngredientInRecipe_objects ?s2 @ map (line_item pk) M"
    using t by (rule bulk_create_Inr)
  then have t': "t = filter (\<lambda>x. iir_recipe x \<noteq> pk) (IngredientInRecipe_objects s) @ map (line_item pk) M"
    by (simp add: tags_set_def)
  have "ingredient_list s' pk = M"
    unfolding ingredient_list_def s' s3' t'
    using ingredient_list_replaced[of pk "IngredientInRecipe_objects s" M]
    by (simp add: super_update_def)
  moreover have "tags_all s' pk = set N"
    using tags_all_tags_set[of _ pk N]
    by (simp add: s' s3' super_update_def tags_all_def)
  moreover have "ingredient_list s' q = ingredient_list s q" if "q \<noteq> pk" for q
  proof -
    have "filter (\<lambda>x. iir_recipe x = q) (map (line_item pk) M) = []"
      using that by (induction M) (auto simp: line_item_def)
    moreover have "filter (\<lambda>x. iir_recipe x = q)
                     (filter (\<lambda>x. iir_recipe x \<noteq> pk) (IngredientInRecipe_objects s))
                   = filter (\<lambda>x. iir_recipe x = q) (IngredientInRecipe_objects s)"
      using that by (rule filter_other)
    ultimately show ?thesis
      unfolding ingredient_list_def s' s3' t' by (simp add: super_update_def)
  qed
  moreover have "tags_all s' q = tags_all s q" if "q \<noteq> pk" for q
    using tags_all_other[OF that, of _ N]
    by (simp add: s' s3' super_update_def tags_all_def)
  ultimately show ?thesis using MN by simp
qed

lemma validate_first:
  assumes "p_cooking_time d = Some ct"
  shows "validate d =
     (case first_failure (p_ingredients d) (p_tags d) ct of
        Some m \<Rightarrow> Inl (ValidationError m) | None \<Rightarrow> Inr d)"
  using assms
  by (auto simp: validate_def first_failure_def has_duplicates_def falsy_def
        COOKING_TIME_MIN_VALUE_def Let_def length_card_distinct length_card_distinct'
        split: option.splits)


text \<open>
  Claim C1. \<open>RecipeSerializer.update\<close>, called for an existing recipe with validated data
  that carries the line items \<open>M\<close> and the tags \<open>N\<close>, commits, and afterwards the stored
  line items of the recipe are exactly the pairs of \<open>M\<close> (every earlier line item of the
  recipe is gone) and its tags are exactly \<open>N\<close>; the line items and tags of every other
  recipe are as before. Deletion and insertion run inside one \<open>atomic\<close> block: for any
  data, the block either raises and leaves the database as it was, or commits the full
  replacement.
\<close>

theorem update_replaces:
  "(validate d = Inr d \<and> p_ingredients d = Some M \<and> p_tags d = Some N
      \<and> get_recipe_or_404 s pk = Inr r \<longrightarrow>
      (\<exists>s'. atomic (RecipeSerializer_update now pk d) s = (s', Inr ())
          \<and> ingredient_list s' pk = M \<and> tags_all s' pk = set N
          \<and> (\<forall>q. q \<noteq> pk \<longrightarrow>
                ingredient_list s' q = ingredient_list s q \<and> tags_all s' q = tags_all s q)))
   \<and> ((\<exists>e. atomic (RecipeSerializer_update now pk d) s = (s, Inl e))
      \<or> (\<exists>s' M' N'. atomic (RecipeSerializer_update now pk d) s = (s', Inr ())
            \<and> p_ingredients d = Some M' \<and> p_tags d = Some N'
            \<and> ingredient_list s' pk = M' \<and> tags_all s' pk = set N'))"
proof (intro conjI impI)
  assume a: "validate d = Inr d \<and> p_ingredients d = Some M \<and> p_tags d = Some N
      \<and> get_recipe_or_404 s pk = Inr r"
  then have dist: "distinct (map fst M)"
    using validate_Inr[of d d] by auto
  from a update_valid[OF _ _ dist, of d N now pk s]
  obtain s' where s': "RecipeSerializer_update now pk d s = Inr s'" by auto
  from update_Inr[OF s'] a
  have props: "ingredient_list s' pk = M \<and> tags_all s' pk = set N
      \<and> (\<forall>q. q \<noteq> pk \<longrightarrow>
                ingredient_list s' q = ingredient_list s q \<and> tags_all s' q = tags_all s q)"
    by auto
  have "atomic (RecipeSerializer_update now pk d) s = (s', Inr ())"
    using s' by (simp add: atomic_def)
  then show "\<exists>s'. atomic (RecipeSerializer_update now pk d) s = (s', Inr ())
          \<and> ingredient_list s' pk = M \<and> tags_all s' pk = set N
          \<and> (\<forall>q. q \<noteq> pk \<longrightarrow>
                ingredient_list s' q = ingredient_list s q \<and> tags_all s' q = tags_all s q)"
    using props by blast
next
  show "(\<exists>e. atomic (RecipeSerializer_update now pk d) s = (s, Inl e))
      \<or> (\<exists>s' M' N'. atomic (RecipeSerializer_update now pk d) s = (s', Inr ())
            \<and> p_ingredients d = Some M' \<and> p_tags d = Some N'
            \<and> ingredient_list s' pk = M' \<and> tags_all s' pk = set N')"
  proof (cases "RecipeSerializer_update now pk d s")
    case (Inl e)
    then show ?thesis by (simp add: atomic_def)
  next
    case (Inr s')
    from update_Inr[OF Inr] Inr show ?thesis by (auto simp: atomic_def)
  qed
qed

text \<open>
  The example of the claim: the recipe holds \<open>{A:1, B:2}\<close> (ingredients 1 and 2) and is
  updated to \<open>{C:3}\<close>; one row \<open>(C, 3)\<close> is left and none for A or B.
\<close>

theorem update_replaces_witness:
  "validate payload_C = Inr payload_C
   \<and> get_recipe_or_404 db_AB 1 = Inr soup
   \<and> ingredient_list db_AB 1 = [(1, 1), (2, 2)]
   \<and> ingredient_list (fst (atomic (RecipeSerializer_update 7 1 payload_C) db_AB)) 1 = [(3, 3)]
   \<and> IngredientInRecipe_objects (fst (atomic (RecipeSerializer_update 7 1 payload_C) db_AB))
       = [\<lparr>iir_recipe = 1, iir_ingredient = 3, amount = 3\<rparr>]
   \<and> tags_all (fst (atomic (RecipeSerializer_update 7 1 payload_C) db_AB)) 1 = {2}"
proof -
  have v: "validate payload_C = Inr payload_C"
    by (simp add: validate_def payload_C_def falsy_def COOKING_TIME_MIN_VALUE_def)
  have g: "get_recipe_or_404 db_AB 1 = Inr soup"
    by (simp add: get_recipe_or_404_def db_AB_def empty_db_def soup_def)
  have i: "p_ingredients payload_C = Some [(3, 3)]" and t: "p_tags payload_C = Some [2]"
    by (simp_all add: payload_C_def)
  from update_replaces[of payload_C "[(3, 3)]" "[2]" db_AB 1 soup 7] v g i t
  obtain s' where s': "atomic (RecipeSerializer_update 7 1 payload_C) db_AB = (s', Inr ())"
    and il: "ingredient_list s' 1 = [(3, 3)]" and ta: "tags_all s' 1 = set [2]"
    by blast
  have old: "ingredient_list db_AB 1 = [(1, 1), (2, 2)]"
    by (simp add: ingredient_list_def db_AB_def empty_db_def)
  have rows: "IngredientInRecipe_objects (fst (atomic (RecipeSerializer_update 7 1 payload_C) db_AB))
       = [\<lparr>iir_recipe = 1, iir_ingredient = 3, amount = 3\<rparr>]"
    by code_simp
  show ?thesis using v g old s' il ta rows by simp
qed

text \<open>
  Claim C2. \<open>validate\<close> looks the cooking time up with \<open>data['cooking_time']\<close>, where it
  reads the two lists with \<open>data.get\<close>: for the data of a partial update that omits the
  cooking time and repeats a tag, checks 1 and 2 pass and the lookup raises \<open>KeyError\<close>, a
  server error, where the order of the checks asks for a validation failure.
\<close>

theorem validate_without_cooking_time:
  "p_cooking_time payload_patch = None
   \<and> p_ingredients payload_patch = Some [(1, 5)]
   \<and> p_tags payload_patch = Some [2, 2]
   \<and> has_duplicates (p_tags payload_patch)
   \<and> validate payload_patch = Inl KeyError
   \<and> http_status (Inl KeyError) = 500"
  by (simp add: payload_patch_def has_duplicates_def validate_def falsy_def)

section \<open>Properties of the recipe listing\<close>

text \<open>
  Claim C8. The listing is ordered by \<open>pub_date\<close>, newest first, and \<open>pub_date\<close> is the
  time of the last save (\<open>auto_now=True\<close>), not of the creation: recipe A (id 1) is
  created at time 1 and recipe B (id 2) at time 2, and the listing is B, A; once A is
  updated at time 3 the listing is A, B, although B was created later.
\<close>

theorem recipes_order_follows_last_save:
  "map (\<lambda>r. (recipe_id r, pub_date r)) (Recipe_objects db_created_AB) = [(1, 1), (2, 2)]
   \<and> map recipe_id (Recipe_objects_all db_created_AB) = [2, 1]
   \<and> map (\<lambda>r. (recipe_id r, pub_date r)) (Recipe_objects db_updated_A) = [(1, 3), (2, 2)]
   \<and> map recipe_id (Recipe_objects_all db_updated_A) = [1, 2]"
  by code_simp

section \<open>Properties of the shopping list\<close>

lemma concat_map_if_eq:
  "distinct xs \<Longrightarrow>
     concat (map (\<lambda>c. if c = a then B else []) xs) = (if a \<in> set xs then B else [])"
  by (induction xs) auto

lemma concat_map_find:
  "distinct (map f xs) \<Longrightarrow>
     concat (map (\<lambda>i. if f i = n then [g i] else []) xs)
       = (case find (\<lambda>i. f i = n) xs of None \<Rightarrow> [] | Some i \<Rightarrow> [g i])"
proof (induction xs)
  case Nil
  then show ?case by simp
next
  case (Cons i xs)
  show ?case
  proof (cases "f i = n")
    case True
    have "f i \<notin> f ` set xs" using Cons.prems by simp
    with True have "\<forall>j\<in>set xs. f j \<noteq> n" by (metis imageI)
    then have "concat (map (\<lambda>i. if f i = n then [g i] else []) xs) = []"
      by (induction xs) auto
    with True show ?thesis by simp
  next
    case False
    then show ?thesis using Cons by simp
  qed
qed

lemma cart_rows_join:
  assumes "distinct (ShoppingCart_objects s)" "distinct (map ingredient_id (Ingredient_objects s))"
  shows "cart_rows s u = concat (map (cart_row s u) (IngredientInRecipe_objects s))"
proof -
  have c: "(fst c = u \<and> snd c = r) = (c = (u, r))" for c :: "nat \<times> nat" and r
    by auto
  have i: "concat (map (\<lambda>i. if ingredient_id i = n
                              then [((ingredient_name i, measurement_unit i), a)] else [])
                     (Ingredient_objects s))
           = (case map_option (\<lambda>i. (ingredient_name i, measurement_unit i))
                     (find (\<lambda>i. ingredient_id i = n) (Ingredient_objects s)) of
                None \<Rightarrow> [] | Some k \<Rightarrow> [(k, a)])" for n a
    using concat_map_find[OF assms(2), of n "\<lambda>i. ((ingredient_name i, measurement_unit i), a)"]
    by (simp split: option.splits)
  have "cart_row s u = (\<lambda>x. if (u, iir_recipe x) \<in> set (ShoppingCart_objects s)
            then (case map_option (\<lambda>i. (ingredient_name i, measurement_unit i))
                     (find (\<lambda>i. ingredient_id i = iir_ingredient x) (Ingredient_objects s)) of
                    None \<Rightarrow> [] | Some k \<Rightarrow> [(k, amount x)])
            else [])"
    by (rule ext) (simp add: cart_row_def in_cart_def key_of_def)
  then show ?thesis
    unfolding cart_rows_def c i concat_map_if_eq[OF assms(1)] by simp
qed

lemma cart_row_if:
  "cart_row s u x =
     (if in_cart s u x \<and> key_of s x \<noteq> None then [(the (key_of s x), amount x)] else [])"
  by (cases "key_of s x") (simp_all add: cart_row_def)

lemma keys_of_join:
  "fst ` set (concat (map (cart_row s u) xs))
     = {k. \<exists>x\<in>set xs. in_cart s u x \<and> key_of s x = Some k}"
proof (induction xs)
  case Nil
  then show ?case by simp
next
  case (Cons x xs)
  have "fst ` set (cart_row s u x) = {k. in_cart s u x \<and> key_of s x = Some k}"
    by (auto simp: cart_row_if)
  then show ?case using Cons by (auto simp: image_Un)
qed

lemma total_of_join:
  "sum_list (map snd (filter (\<lambda>row. fst row = k) (concat (map (cart_row s u) xs))))
     = sum_list (map amount (filter (\<lambda>x. in_cart s u x \<and> key_of s x = Some k) xs))"
proof (induction xs)
  case Nil
  then show ?case by simp
next
  case (Cons x xs)
  have "sum_list (map snd (filter (\<lambda>row. fst row = k) (cart_row s u x)))
          = (if in_cart s u x \<and> key_of s x = Some k then amount x else 0)"
    by (auto simp: cart_row_if)
  then show ?case using Cons by simp
qed

lemma distinct_map_insort_key:
  "distinct (map f (insort_key g x xs)) = (f x \<notin> f ` set xs \<and> distinct (map f xs))"
  by (induction xs) (auto simp: set_insort_key)

lemma distinct_map_sort_key: "distinct (map f (sort_key g xs)) = distinct (map f xs)"
  by (induction xs) (auto simp: distinct_map_insort_key)

lemma join_concat: "join sep (x # xs) = x @ concat (map (\<lambda>y. sep @ y) xs)"
  by (induction xs arbitrary: x) auto

lemma annotate_sum_groups:
  "distinct (map fst (annotate_sum rank rows))
   \<and> set (map fst (annotate_sum rank rows)) = fst ` set rows
   \<and> (\<forall>g\<in>set (annotate_sum rank rows).
         snd g = sum_list (map snd (filter (\<lambda>row. fst row = fst g) rows)))
   \<and> sorted (map (\<lambda>g. rank (fst g)) (annotate_sum rank rows))"
proof -
  let ?ys = "map (\<lambda>k. (k, sum_list (map snd (filter (\<lambda>row. fst row = k) rows))))
               (remdups (map fst rows))"
  have d: "distinct (map fst ?ys)" by (simp add: comp_def)
  have "distinct (map fst (sort_key (\<lambda>g. rank (fst g)) ?ys))"
    unfolding distinct_map_sort_key by (rule d)
  moreover have "set (map fst (sort_key (\<lambda>g. rank (fst g)) ?ys)) = fst ` set rows"
    by (simp add: image_comp comp_def)
  moreover have "\<forall>g\<in>set (sort_key (\<lambda>g. rank (fst g)) ?ys).
         snd g = sum_list (map snd (filter (\<lambda>row. fst row = fst g) rows))"
    by auto
  moreover have "sorted (map (\<lambda>g. rank (fst g)) (sort_key (\<lambda>g. rank (fst g)) ?ys))"
    by (rule sorted_sort_key)
  ultimately show ?thesis by (simp add: annotate_sum_def)
qed

lemma join_lines:
  "join newline (map shopping_line groups) =
     (case groups of
        [] \<Rightarrow> []
      | g # gs \<Rightarrow>
          (\<lambda>((n, m), q). ''- '' @ n @ '' ('' @ m @ '') - '' @ str_nat q) g
          @ concat (map (\<lambda>g. CHR 0x0A #
                      (\<lambda>((n, m), q). ''- '' @ n @ '' ('' @ m @ '') - '' @ str_nat q) g) gs))"
proof (cases groups)
  case Nil
  then show ?thesis by simp
next
  case (Cons g gs)
  have l: "shopping_line g = (\<lambda>((n, m), q). ''- '' @ n @ '' ('' @ m @ '') - '' @ str_nat q) g"
    for g :: "(string \<times> string) \<times> nat"
    by (simp add: shopping_line_def split_beta)
  show ?thesis
    unfolding Cons list.map join_concat list.case l
    by (simp add: newline_def comp_def)
qed

lemma cart_groups:
  assumes "distinct (ShoppingCart_objects s)" "distinct (map ingredient_id (Ingredient_objects s))"
  shows "distinct (map fst (annotate_sum rank (cart_rows s uid)))
   \<and> set (map fst (annotate_sum rank (cart_rows s uid))) = cart_keys s uid
   \<and> (\<forall>g\<in>set (annotate_sum rank (cart_rows s uid)). snd g = cart_total s uid (fst g))
   \<and> sorted (map (\<lambda>g. rank (fst g)) (annotate_sum rank (cart_rows s uid)))"
  using annotate_sum_groups[of rank "cart_rows s uid"]
  unfolding cart_rows_join[OF assms] keys_of_join total_of_join cart_keys_def cart_total_def
  by simp

text \<open>
  Claim C3. For a user whose cart is not empty the download answers 200 with the
  attachment whose body holds, between header and footer, one line per group, the lines
  separated by newlines. The groups are the distinct pairs (ingredient name, measurement
  unit) of the line items of the recipes in the user's cart, and the number of a group's
  line is the sum of the amounts of those line items with that pair. Each line reads
  \<open>- name (unit) - sum\<close>; the groups come in the order the database returns them. The
  cart rows and the ingredient ids are unique, as the schema has them. For a user whose
  cart is empty the answer is status 400.
\<close>

theorem shopping_list_groups:
  "(distinct (ShoppingCart_objects s) \<and> distinct (map ingredient_id (Ingredient_objects s))
      \<and> list_ex (\<lambda>c. fst c = user_id u) (ShoppingCart_objects s) \<longrightarrow>
      (\<exists>groups.
          download_shopping_cart s rank today_dmy today_Y u =
            Response
              (Attachment (username u @ ''_shopping_list.txt'')
                 (HEADER_FOR @ get_full_name u @ [CHR 0x0A, CHR 0x0A]
                  @ HEADER_DATE @ today_dmy @ [CHR 0x0A, CHR 0x0A]
                  @ (case groups of
                       [] \<Rightarrow> []
                     | g # gs \<Rightarrow>
                         (\<lambda>((n, m), q). ''- '' @ n @ '' ('' @ m @ '') - '' @ str_nat q) g
                         @ concat (map (\<lambda>g. CHR 0x0A #
                             (\<lambda>((n, m), q). ''- '' @ n @ '' ('' @ m @ '') - '' @ str_nat q) g) gs))
                  @ [CHR 0x0A, CHR 0x0A] @ ''Foodgram ('' @ today_Y @ '')''))
              200
          \<and> distinct (map fst groups)
          \<and> set (map fst groups) = cart_keys s (user_id u)
          \<and> (\<forall>g\<in>set groups. snd g = cart_total s (user_id u) (fst g))
          \<and> sorted (map (\<lambda>g. rank (fst g)) groups)))
   \<and> (\<not> list_ex (\<lambda>c. fst c = user_id u) (ShoppingCart_objects s) \<longrightarrow>
        download_shopping_cart s rank today_dmy today_Y u = Response Empty 400)"
proof (intro conjI impI)
  assume a: "distinct (ShoppingCart_objects s) \<and> distinct (map ingredient_id (Ingredient_objects s))
      \<and> list_ex (\<lambda>c. fst c = user_id u) (ShoppingCart_objects s)"
  let ?G = "annotate_sum rank (cart_rows s (user_id u))"
  have d: "download_shopping_cart s rank today_dmy today_Y u =
            Response
              (Attachment (username u @ ''_shopping_list.txt'')
                 (HEADER_FOR @ get_full_name u @ [CHR 0x0A, CHR 0x0A]
                  @ HEADER_DATE @ today_dmy @ [CHR 0x0A, CHR 0x0A]
                  @ join newline (map shopping_line ?G)
                  @ [CHR 0x0A, CHR 0x0A] @ ''Foodgram ('' @ today_Y @ '')''))
              200"
    using a by (simp add: download_shopping_cart_def shopping_lines_def Let_def newline_def
          HTTP_200_OK_def)
  from a have g: "distinct (map fst ?G) \<and> set (map fst ?G) = cart_keys s (user_id u)
      \<and> (\<forall>g\<in>set ?G. snd g = cart_total s (user_id u) (fst g))
      \<and> sorted (map (\<lambda>g. rank (fst g)) ?G)"
    using cart_groups[of s rank "user_id u"] by blast
  show "\<exists>groups.
          download_shopping_cart s rank today_dmy today_Y u =
            Response
              (Attachment (username u @ ''_shopping_list.txt'')
                 (HEADER_FOR @ get_full_name u @ [CHR 0x0A, CHR 0x0A]
                  @ HEADER_DATE @ today_dmy @ [CHR 0x0A, CHR 0x0A]
                  @ (case groups of
                       [] \<Rightarrow> []
                     | g # gs \<Rightarrow>
                         (\<lambda>((n, m), q). ''- '' @ n @ '' ('' @ m @ '') - '' @ str_nat q) g
                         @ concat (map (\<lambda>g. CHR 0x0A #
                             (\<lambda>((n, m), q). ''- '' @ n @ '' ('' @ m @ '') - '' @ str_nat q) g) gs))
                  @ [CHR 0x0A, CHR 0x0A] @ ''Foodgram ('' @ today_Y @ '')''))
              200
          \<and> distinct (map fst groups)
          \<and> set (map fst groups) = cart_keys s (user_id u)
          \<and> (\<forall>g\<in>set groups. snd g = cart_total s (user_id u) (fst g))
          \<and> sorted (map (\<lambda>g. rank (fst g)) groups)"
    apply (rule exI[of _ ?G])
    unfolding d join_lines using g by blast
next
  assume "\<not> list_ex (\<lambda>c. fst c = user_id u) (ShoppingCart_objects s)"
  then show "download_shopping_cart s rank today_dmy today_Y u = Response Empty 400"
    by (simp add: download_shopping_cart_def HTTP_400_BAD_REQUEST_def)
qed

lemma one_group:
  assumes "distinct (map fst groups)" "set (map fst groups) = {k}"
    "\<forall>g\<in>set groups. snd g = qty (fst g)"
  shows "groups = [(k, qty k)]"
proof -
  have "map fst groups = [k]"
  proof (cases "map fst groups")
    case Nil
    with assms(2) show ?thesis by simp
  next
    case (Cons a as)
    with assms(1) have "a \<notin> set as" by simp
    moreover from Cons assms(2) have "a = k" "set as \<subseteq> {k}" by auto
    ultimately have "as = []" by (cases as) auto
    with Cons \<open>a = k\<close> show ?thesis by simp
  qed
  then obtain g where g: "groups = [g]" "fst g = k" by (cases groups) auto
  with assms(3) have "snd g = qty k" by simp
  with g show ?thesis by (simp add: prod_eq_iff)
qed

text \<open>
  The example of the claim: recipe X with (Flour, g, 200) and recipe Y with (Flour, g, 300)
  in the cart give the single line \<open>- Flour (g) - 500\<close>; with X alone in the cart the
  line carries 200; an empty cart gives 400.
\<close>

theorem shopping_list_groups_witness:
  "distinct (ShoppingCart_objects db_flour)
   \<and> distinct (map ingredient_id (Ingredient_objects db_flour))
   \<and> list_ex (\<lambda>c. fst c = user_id cook) (ShoppingCart_objects db_flour)
   \<and> cart_keys db_flour (user_id cook) = {(''Flour'', ''g'')}
   \<and> cart_total db_flour (user_id cook) (''Flour'', ''g'') = 500
   \<and> download_shopping_cart db_flour (\<lambda>k. 0) ''04-11-2026'' ''2026'' cook
       = Response
           (Attachment ''cook_shopping_list.txt''
              (HEADER_FOR @ ''Ann Lee'' @ [CHR 0x0A, CHR 0x0A]
               @ HEADER_DATE @ ''04-11-2026'' @ [CHR 0x0A, CHR 0x0A]
               @ ''- Flour (g) - 500''
               @ [CHR 0x0A, CHR 0x0A] @ ''Foodgram (2026)''))
           200
   \<and> shopping_lines db_flour_X (\<lambda>k. 0) (user_id cook) = [''- Flour (g) - 200'']
   \<and> get_full_name ann = ''Ann''
   \<and> \<not> list_ex (\<lambda>c. fst c = user_id cook) (ShoppingCart_objects empty_db)
   \<and> download_shopping_cart empty_db (\<lambda>k. 0) ''04-11-2026'' ''2026'' cook = Response Empty 400"
proof -
  have i: "distinct (ShoppingCart_objects db_flour)"
    "distinct (map ingredient_id (Ingredient_objects db_flour))"
    "list_ex (\<lambda>c. fst c = user_id cook) (ShoppingCart_objects db_flour)"
    by code_simp+
  have b: "\<not> list_ex (\<lambda>c. fst c = user_id cook) (ShoppingCart_objects empty_db)"
    by code_simp
  have k: "cart_keys db_flour (user_id cook) = {(''Flour'', ''g'')}"
    by (auto simp: cart_keys_def in_cart_def key_of_def db_flour_def empty_db_def cook_def)
  have t: "cart_total db_flour (user_id cook) (''Flour'', ''g'') = 500"
    by code_simp
  have n: "get_full_name cook = ''Ann Lee''" "username cook = ''cook''" "str_nat 500 = ''500''"
    by code_simp+
  have x: "shopping_lines db_flour_X (\<lambda>k. 0) (user_id cook) = [''- Flour (g) - 200'']"
    "get_full_name ann = ''Ann''"
    by code_simp+
  from shopping_list_groups[of db_flour cook "\<lambda>k. 0" "''04-11-2026''" "''2026''"] i
  obtain groups where
    r: "download_shopping_cart db_flour (\<lambda>k. 0) ''04-11-2026'' ''2026'' cook =
            Response
              (Attachment (username cook @ ''_shopping_list.txt'')
                 (HEADER_FOR @ get_full_name cook @ [CHR 0x0A, CHR 0x0A]
                  @ HEADER_DATE @ ''04-11-2026'' @ [CHR 0x0A, CHR 0x0A]
                  @ (case groups of
                       [] \<Rightarrow> []
                     | g # gs \<Rightarrow>
                         (\<lambda>((n, m), q). ''- '' @ n @ '' ('' @ m @ '') - '' @ str_nat q) g
                         @ concat (map (\<lambda>g. CHR 0x0A #
                             (\<lambda>((n, m), q). ''- '' @ n @ '' ('' @ m @ '') - '' @ str_nat q) g) gs))
                  @ [CHR 0x0A, CHR 0x0A] @ ''Foodgram ('' @ ''2026'' @ '')''))
              200"
    and g: "distinct (map fst groups)" "set (map fst groups) = cart_keys db_flour (user_id cook)"
      "\<forall>g\<in>set groups. snd g = cart_total db_flour (user_id cook) (fst g)"
    by blast
  have "groups = [((''Flour'', ''g''), 500)]"
    using one_group[OF g(1) g(2)[unfolded k] g(3)] t by simp
  with r have "download_shopping_cart db_flour (\<lambda>k. 0) ''04-11-2026'' ''2026'' cook
       = Response
           (Attachment ''cook_shopping_list.txt''
              (HEADER_FOR @ ''Ann Lee'' @ [CHR 0x0A, CHR 0x0A]
               @ HEADER_DATE @ ''04-11-2026'' @ [CHR 0x0A, CHR 0x0A]
               @ ''- Flour (g) - 500''
               @ [CHR 0x0A, CHR 0x0A] @ ''Foodgram (2026)''))
           200"
    by (simp add: n)
  moreover from shopping_list_groups[of empty_db cook "\<lambda>k. 0" "''04-11-2026''" "''2026''"] b
  have "download_shopping_cart empty_db (\<lambda>k. 0) ''04-11-2026'' ''2026'' cook = Response Empty 400"
    by simp
  ultimately show ?thesis using i b k t x by simp
qed

section \<open>Properties of favorites and the shopping cart\<close>

lemma find_SomeD: "find P xs = Some x \<Longrightarrow> x \<in> set xs \<and> P x"
  by (induction xs) (auto split: if_splits)

lemma get_recipe_or_404_Inl:
  "(get_recipe_or_404 s pk = Inl e) = (e = Http404 \<and> pk \<notin> recipe_id ` set (Recipe_objects s))"
  by (auto simp: get_recipe_or_404_def find_None_iff image_iff dest: find_SomeD
        split: option.splits)

lemma get_recipe_or_404_Inr:
  "get_recipe_or_404 s pk = Inr r \<Longrightarrow> r \<in> set (Recipe_objects s) \<and> recipe_id r = pk"
  by (auto simp: get_recipe_or_404_def dest: find_SomeD split: option.splits)

lemma get_recipe_or_404_cases:
  "(pk \<notin> recipe_id ` set (Recipe_objects s) \<and> get_recipe_or_404 s pk = Inl Http404)
   \<or> (\<exists>r. pk \<in> recipe_id ` set (Recipe_objects s) \<and> recipe_id r = pk \<and> get_recipe_or_404 s pk = Inr r)"
proof (cases "get_recipe_or_404 s pk")
  case (Inl e)
  then show ?thesis using get_recipe_or_404_Inl[of s pk e] by simp
next
  case (Inr r)
  then show ?thesis using get_recipe_or_404_Inr[OF Inr] by auto
qed

text \<open>
  Claim C4, as amended. An add-to-favorites or add-to-shopping-cart request whose recipe
  id does not resolve is answered with status 400 and the message "recipe not found" (the
  handler catches \<open>Http404\<close>), and no row is inserted.
\<close>

theorem add_to_missing_recipe:
  "pk \<notin> recipe_id ` set (Recipe_objects s) \<Longrightarrow>
     add_to s model pk user = (s, Inr (Response (Message Recipe_not_found) 400))
     \<and> http_status (snd (add_to s model pk user)) = 400"
  using get_recipe_or_404_cases[of pk s]
  by (auto simp: add_to_def HTTP_400_BAD_REQUEST_def)

theorem add_to_missing_recipe_witness:
  "5 \<notin> recipe_id ` set (Recipe_objects db_AB)
   \<and> add_to db_AB ShoppingCart 5 1 = (db_AB, Inr (Response (Message Recipe_not_found) 400))"
proof -
  have "5 \<notin> recipe_id ` set (Recipe_objects db_AB)"
    by (simp add: db_AB_def empty_db_def soup_def)
  with add_to_missing_recipe[of 5 db_AB ShoppingCart 1] show ?thesis by simp
qed

text \<open>
  Claim C4 as stated fails: with no recipe 5 in the database, the answer to the add request
  is not a 404.
\<close>

theorem add_to_missing_recipe_counterexample:
  "5 \<notin> recipe_id ` set (Recipe_objects db_AB)
   \<and> http_status (snd (add_to db_AB Favorite 5 1)) \<noteq> 404"
  by (simp add: add_to_def get_recipe_or_404_def db_AB_def empty_db_def soup_def
        HTTP_400_BAD_REQUEST_def)

text \<open>
  Claim C9. A remove request whose recipe id does not resolve fails with the 404 that the
  recipe lookup raises and leaves the database as it is, where the add request for the
  same id answers 400; the 400 "already removed" is the answer exactly when the recipe
  exists and the user has no row for it.
\<close>

theorem delete_from_not_found:
  "(pk \<notin> recipe_id ` set (Recipe_objects s) \<longrightarrow>
      delete_from s model pk user = (s, Inl Http404)
      \<and> http_status (snd (delete_from s model pk user)) = 404
      \<and> http_status (snd (add_to s model pk user)) = 400)
   \<and> (snd (delete_from s model pk user)
         = Inr (Response (Errors_key Recipe_already_removed) 400)
       \<longleftrightarrow> pk \<in> recipe_id ` set (Recipe_objects s) \<and> (user, pk) \<notin> set (objects model s))
   \<and> (http_status (snd (delete_from s model pk user)) = 400
       \<longleftrightarrow> pk \<in> recipe_id ` set (Recipe_objects s) \<and> (user, pk) \<notin> set (objects model s))"
  using get_recipe_or_404_cases[of pk s]
  by (auto simp: delete_from_def add_to_def list_ex_iff HTTP_400_BAD_REQUEST_def
        HTTP_204_NO_CONTENT_def)

theorem delete_from_not_found_witness:
  "5 \<notin> recipe_id ` set (Recipe_objects db_AB)
   \<and> delete_from db_AB Favorite 5 1 = (db_AB, Inl Http404)
   \<and> http_status (snd (delete_from db_AB Favorite 5 1)) = 404
   \<and> http_status (snd (add_to db_AB Favorite 5 1)) = 400
   \<and> 1 \<in> recipe_id ` set (Recipe_objects db_AB)
   \<and> snd (delete_from db_AB Favorite 1 1) = Inr (Response (Errors_key Recipe_already_removed) 400)"
proof -
  have a: "5 \<notin> recipe_id ` set (Recipe_objects db_AB)"
    and b: "1 \<in> recipe_id ` set (Recipe_objects db_AB)"
    and c: "(1, 1) \<notin> set (objects Favorite db_AB)"
    by (simp_all add: db_AB_def empty_db_def soup_def)
  from delete_from_not_found[of 5 db_AB Favorite 1] delete_from_not_found[of 1 db_AB Favorite 1]
    a b c show ?thesis by simp
qed

section \<open>Properties of subscriptions\<close>

lemma get_user_or_404_Some:
  "uid \<in> user_id ` set (User_objects s) \<Longrightarrow> \<exists>u. get_user_or_404 s uid = Inr u \<and> user_id u = uid"
  by (cases "find (\<lambda>u. user_id u = uid) (User_objects s)")
     (auto simp: get_user_or_404_def find_None_iff dest: find_SomeD)

text \<open>
  Claim C5. A subscribe request (POST) of an existing user to themselves is answered with
  status 400 and inserts nothing, whatever the database holds: "already subscribed" when
  a row (user, user) is stored, "cannot subscribe to yourself" otherwise. The handler
  refuses the request itself; the model declares no constraint against such a row.
\<close>

theorem subscribe_self_rejected:
  "uid \<in> user_id ` set (User_objects s) \<Longrightarrow>
     fst (subscribe s POST uid uid) = s
     \<and> http_status (snd (subscribe s POST uid uid)) = 400
     \<and> snd (subscribe s POST uid uid) =
         (if list_ex (\<lambda>r. sub_user r = uid \<and> sub_author r = uid) (Subscribe_objects s)
          then Inr (Response (Error_key Already_subscribed) 400)
          else Inr (Response (Error_key Cannot_subscribe_to_self) 400))"
  using get_user_or_404_Some[of uid s]
  by (auto simp: subscribe_def Let_def HTTP_400_BAD_REQUEST_def list_ex_iff filter_empty_conv)

theorem subscribe_self_rejected_witness:
  "1 \<in> user_id ` set (User_objects db_users)
   \<and> subscribe db_users POST 1 1
       = (db_users, Inr (Response (Error_key Cannot_subscribe_to_self) 400))
   \<and> 1 \<in> user_id ` set (User_objects db_two_subscriptions)
   \<and> fst (subscribe db_two_subscriptions POST 1 1) = db_two_subscriptions
   \<and> http_status (snd (subscribe db_two_subscriptions POST 1 1)) = 400"
proof -
  have a: "1 \<in> user_id ` set (User_objects db_users)"
    by (simp add: db_users_def empty_db_def alice_def)
  have b: "1 \<in> user_id ` set (User_objects db_two_subscriptions)"
    by code_simp
  have c: "\<not> list_ex (\<lambda>r. sub_user r = 1 \<and> sub_author r = 1) (Subscribe_objects db_users)"
    by (simp add: db_users_def empty_db_def)
  from subscribe_self_rejected[OF a] subscribe_self_rejected[OF b] a b c
  show ?thesis by (simp add: prod_eq_iff)
qed

text \<open>
  Claim C7. The subscriptions list is not ordered by subscription id. The query is one of
  \<open>User\<close>, to which \<open>Subscribe.Meta.ordering = ['-id']\<close> does not apply, and it has no
  \<open>order_by\<close>: Alice follows Bob (subscription 1) and then Carol (subscription 2); by
  descending subscription id the list is Carol, Bob, and the endpoint answers Bob, Carol.
  It answers Bob, Carol as well when the subscriptions were made in the other order: the
  rows follow the table of users, whatever the subscription ids.
\<close>

theorem subscriptions_not_newest_first:
  "map (\<lambda>r. (subscribe_id r, sub_user r, sub_author r)) (Subscribe_objects db_two_subscriptions)
     = [(1, 1, 2), (2, 1, 3)]
   \<and> newest_first db_two_subscriptions 1 = [3, 2]
   \<and> subscriptions db_two_subscriptions 1 = Response (SubscribeList [2, 3]) 200
   \<and> map (\<lambda>r. (subscribe_id r, sub_user r, sub_author r)) (Subscribe_objects db_carol_then_bob)
     = [(1, 1, 3), (2, 1, 2)]
   \<and> newest_first db_carol_then_bob 1 = [2, 3]
   \<and> subscriptions db_carol_then_bob 1 = Response (SubscribeList [2, 3]) 200"
  by code_simp

section \<open>Properties of short links\<close>

lemma distinct_characters: "distinct characters"
  by (simp add: characters_def)

lemma length_characters: "length characters = 62"
  by (simp add: characters_def)

lemma distinct_remove_nth:
  "distinct xs \<Longrightarrow> distinct (take j xs @ drop (Suc j) xs)"
  by (metis distinct_drop distinct_take append_take_drop_id distinct_append drop_Suc set_drop_subset
      subset_eq disjoint_iff tl_drop set_take_disj_set_drop_if_distinct le_SucI order_refl)

lemma nth_not_in_rest:
  assumes "distinct xs" "j < length xs"
  shows "xs ! j \<notin> set (take j xs @ drop (Suc j) xs)"
proof -
  have "xs = take j xs @ xs ! j # drop (Suc j) xs"
    using assms(2) by (simp add: id_take_nth_drop)
  then have "distinct (take j xs @ xs ! j # drop (Suc j) xs)"
    using assms(1) by simp
  then show ?thesis by auto
qed

lemma set_remove_nth: "set (take j xs @ drop (Suc j) xs) \<subseteq> set xs"
  using set_take_subset[of j xs] set_drop_subset[of "Suc j" xs] by auto

lemma random_sample_ok:
  "distinct pool \<Longrightarrow> k \<le> length pool \<Longrightarrow>
     \<exists>ys. random_sample pool k rng = Inr ys \<and> length ys = k \<and> distinct ys \<and> set ys \<subseteq> set pool"
proof (induction k arbitrary: pool rng)
  case 0
  then show ?case by simp
next
  case (Suc k)
  let ?j = "rng 0 mod length pool"
  let ?rest = "take ?j pool @ drop (Suc ?j) pool"
  from Suc.prems have ne: "pool \<noteq> []" by auto
  then have j: "?j < length pool" by simp
  have "distinct ?rest" using Suc.prems(1) by (rule distinct_remove_nth)
  moreover have "k \<le> length ?rest" using Suc.prems(2) j by simp
  ultimately obtain ys where ys: "random_sample ?rest k (\<lambda>i. rng (Suc i)) = Inr ys"
    "length ys = k" "distinct ys" "set ys \<subseteq> set ?rest"
    using Suc.IH[of ?rest "\<lambda>i. rng (Suc i)"] by blast
  have "pool ! ?j \<notin> set ys"
    using nth_not_in_rest[OF Suc.prems(1) j] ys(4) by blast
  moreover have "set ys \<subseteq> set pool"
    using ys(4) set_remove_nth[of ?j pool] by blast
  moreover have "pool ! ?j \<in> set pool" using j by simp
  ultimately show ?case using ne ys by (simp add: Let_def)
qed

lemma mint_token_ok:
  "\<exists>token. mint_token rng = Inr token \<and> length token = 4 \<and> distinct token
      \<and> set token \<subseteq> set characters"
  unfolding mint_token_def
  using random_sample_ok[OF distinct_characters, of 4 rng] by (simp add: length_characters)

lemma get_or_create_again:
  assumes "get_or_create s url short_url = Inr (s', link_obj)"
  shows "get_or_create s' url short_url' = Inr (s', link_obj)
         \<and> Recipe_objects s' = Recipe_objects s"
proof (cases "filter (\<lambda>l. original_url l = url) (ShortLink_objects s)")
  case Nil
  with assms have s': "s' = s\<lparr>ShortLink_objects := ShortLink_objects s @ [link_obj]\<rparr>"
    and l: "link_obj = \<lparr>original_url = url, short_link = short_url\<rparr>"
    by (auto simp: get_or_create_def Let_def split: if_splits)
  have "filter (\<lambda>l. original_url l = url) (ShortLink_objects s') = [link_obj]"
    using Nil by (simp add: s' l)
  then show ?thesis by (simp add: get_or_create_def s')
next
  case (Cons l ls)
  with assms have "ls = []" "s' = s" "link_obj = l"
    by (auto simp: get_or_create_def split: list.splits)
  with Cons show ?thesis by (simp add: get_or_create_def)
qed

lemma get_Inr:
  assumes "snd (GetRecipeShortLink_get s environ api_root rng pk) = Inr resp"
  shows "\<exists>recipe domen token s' link_obj.
           get_recipe_or_404 s pk = Inr recipe \<and> environ ''DOMEN'' = Some domen
           \<and> mint_token rng = Inr token
           \<and> get_or_create s (get_absolute_url api_root recipe) (domen @ ''s/'' @ token)
               = Inr (s', link_obj)
           \<and> GetRecipeShortLink_get s environ api_root rng pk
               = (s', Inr (Response (ShortLinkData (short_link link_obj)) 200))"
  using assms
  by (auto simp: GetRecipeShortLink_get_def Let_def HTTP_200_OK_def
        split: sum.splits option.splits prod.splits)

text \<open>
  Claim C6, as amended. A get-link request for a recipe id that does not resolve fails
  with 404. For an existing recipe (and \<open>DOMEN\<close> set): when one link is stored for the
  recipe's URL, the request answers with it and stores nothing; when none is stored, the
  request stores and answers the freshly sampled link, unless that link is already stored
  for another URL, in which case it fails with \<open>IntegrityError\<close> and stores nothing.
  Whenever a request answers with a short link, the next request for the same recipe
  answers with the same link, whatever token it samples, and stores nothing new.
\<close>

theorem short_link_idempotent:
  "(pk \<notin> recipe_id ` set (Recipe_objects s) \<longrightarrow>
      GetRecipeShortLink_get s environ api_root rng pk = (s, Inl Http404)
      \<and> http_status (snd (GetRecipeShortLink_get s environ api_root rng pk)) = 404)
   \<and> (get_recipe_or_404 s pk = Inr recipe \<and> environ ''DOMEN'' = Some domen
        \<and> mint_token rng = Inr token \<longrightarrow>
        (\<forall>l. filter (\<lambda>l. original_url l = get_absolute_url api_root recipe) (ShortLink_objects s)
               = [l] \<longrightarrow>
             GetRecipeShortLink_get s environ api_root rng pk
               = (s, Inr (Response (ShortLinkData (short_link l)) 200)))
        \<and> (filter (\<lambda>l. original_url l = get_absolute_url api_root recipe) (ShortLink_objects s)
               = []
             \<and> domen @ ''s/'' @ token \<notin> short_link ` set (ShortLink_objects s) \<longrightarrow>
             GetRecipeShortLink_get s environ api_root rng pk
               = (s\<lparr>ShortLink_objects := ShortLink_objects s @
                       [\<lparr>original_url = get_absolute_url api_root recipe,
                         short_link = domen @ ''s/'' @ token\<rparr>]\<rparr>,
                  Inr (Response (ShortLinkData (domen @ ''s/'' @ token)) 200)))
        \<and> (filter (\<lambda>l. original_url l = get_absolute_url api_root recipe) (ShortLink_objects s)
               = []
             \<and> domen @ ''s/'' @ token \<in> short_link ` set (ShortLink_objects s) \<longrightarrow>
             GetRecipeShortLink_get s environ api_root rng pk = (s, Inl IntegrityError)))
   \<and> (snd (GetRecipeShortLink_get s environ api_root rng pk) = Inr resp \<longrightarrow>
        (\<exists>link. resp = Response (ShortLinkData link) 200)
        \<and> (\<forall>rng'.
              GetRecipeShortLink_get (fst (GetRecipeShortLink_get s environ api_root rng pk))
                environ api_root rng' pk
              = (fst (GetRecipeShortLink_get s environ api_root rng pk), Inr resp)))"
proof (intro conjI impI allI)
  assume "pk \<notin> recipe_id ` set (Recipe_objects s)"
  then have "get_recipe_or_404 s pk = Inl Http404"
    by (simp add: get_recipe_or_404_Inl)
  then show "GetRecipeShortLink_get s environ api_root rng pk = (s, Inl Http404)"
    and "http_status (snd (GetRecipeShortLink_get s environ api_root rng pk)) = 404"
    by (simp_all add: GetRecipeShortLink_get_def)
next
  fix l
  assume "get_recipe_or_404 s pk = Inr recipe \<and> environ ''DOMEN'' = Some domen
        \<and> mint_token rng = Inr token"
    and "filter (\<lambda>l. original_url l = get_absolute_url api_root recipe) (ShortLink_objects s) = [l]"
  then show "GetRecipeShortLink_get s environ api_root rng pk
               = (s, Inr (Response (ShortLinkData (short_link l)) 200))"
    by (simp add: GetRecipeShortLink_get_def get_or_create_def HTTP_200_OK_def)
next
  assume "get_recipe_or_404 s pk = Inr recipe \<and> environ ''DOMEN'' = Some domen
        \<and> mint_token rng = Inr token"
    and "filter (\<lambda>l. original_url l = get_absolute_url api_root recipe) (ShortLink_objects s) = []
         \<and> domen @ ''s/'' @ token \<notin> short_link ` set (ShortLink_objects s)"
  then show "GetRecipeShortLink_get s environ api_root rng pk
               = (s\<lparr>ShortLink_objects := ShortLink_objects s @
                       [\<lparr>original_url = get_absolute_url api_root recipe,
                         short_link = domen @ ''s/'' @ token\<rparr>]\<rparr>,
                  Inr (Response (ShortLinkData (domen @ ''s/'' @ token)) 200))"
    by (auto simp: GetRecipeShortLink_get_def get_or_create_def HTTP_200_OK_def Let_def
          list_ex_iff image_iff)
next
  assume "get_recipe_or_404 s pk = Inr recipe \<and> environ ''DOMEN'' = Some domen
        \<and> mint_token rng = Inr token"
    and "filter (\<lambda>l. original_url l = get_absolute_url api_root recipe) (ShortLink_objects s) = []
         \<and> domen @ ''s/'' @ token \<in> short_link ` set (ShortLink_objects s)"
  then show "GetRecipeShortLink_get s environ api_root rng pk = (s, Inl IntegrityError)"
    by (auto simp: GetRecipeShortLink_get_def get_or_create_def Let_def list_ex_iff image_iff)
next
  assume a: "snd (GetRecipeShortLink_get s environ api_root rng pk) = Inr resp"
  from get_Inr[OF a] obtain recipe domen token s' link_obj where
    r: "get_recipe_or_404 s pk = Inr recipe" and d: "environ ''DOMEN'' = Some domen"
    and g: "get_or_create s (get_absolute_url api_root recipe) (domen @ ''s/'' @ token)
              = Inr (s', link_obj)"
    and res: "GetRecipeShortLink_get s environ api_root rng pk
              = (s', Inr (Response (ShortLinkData (short_link link_obj)) 200))"
    by blast
  from a res have resp: "resp = Response (ShortLinkData (short_link link_obj)) 200" by simp
  then show "\<exists>link. resp = Response (ShortLinkData link) 200" by blast
  fix rng'
  obtain token' where t': "mint_token rng' = Inr token'"
    using mint_token_ok[of rng'] by blast
  from get_or_create_again[OF g, of "domen @ ''s/'' @ token'"]
  have g': "get_or_create s' (get_absolute_url api_root recipe) (domen @ ''s/'' @ token')
              = Inr (s', link_obj)"
    and ro: "Recipe_objects s' = Recipe_objects s" by simp_all
  have r': "get_recipe_or_404 s' pk = Inr recipe"
    using r ro by (simp add: get_recipe_or_404_def)
  show "GetRecipeShortLink_get (fst (GetRecipeShortLink_get s environ api_root rng pk))
          environ api_root rng' pk
        = (fst (GetRecipeShortLink_get s environ api_root rng pk), Inr resp)"
    unfolding res fst_conv resp using g'
    by (simp add: GetRecipeShortLink_get_def r' d t' HTTP_200_OK_def)
qed

text \<open>
  Claim C6 as stated fails: recipe 2 holds the link with the token \<open>aceg\<close>; the first
  request for recipe 1 samples the same token and fails with \<open>IntegrityError\<close>, storing
  nothing, and the second request for recipe 1 answers with a fresh link.
\<close>

theorem short_link_collision_counterexample:
  "1 \<in> recipe_id ` set (Recipe_objects db_link_taken)
   \<and> ShortLink_objects db_link_taken
       = [\<lparr>original_url = ''/api/recipes/2/'', short_link = ''https://foodgram.example/s/aceg''\<rparr>]
   \<and> GetRecipeShortLink_get db_link_taken environ0 ''/api/'' (\<lambda>i. i) 1
       = (db_link_taken, Inl IntegrityError)
   \<and> snd (GetRecipeShortLink_get db_link_taken environ0 ''/api/'' (\<lambda>i. 7 * i + 3) 1)
       = Inr (Response (ShortLinkData ''https://foodgram.example/s/dltB'') 200)"
  by code_simp

theorem short_link_idempotent_witness:
  "snd (GetRecipeShortLink_get db_AB environ0 ''/api/'' (\<lambda>i. i) 1)
     = Inr (Response (ShortLinkData ''https://foodgram.example/s/aceg'') 200)
   \<and> snd (GetRecipeShortLink_get (fst (GetRecipeShortLink_get db_AB environ0 ''/api/'' (\<lambda>i. i) 1))
            environ0 ''/api/'' (\<lambda>i. 7 * i + 3) 1)
     = Inr (Response (ShortLinkData ''https://foodgram.example/s/aceg'') 200)
   \<and> 5 \<notin> recipe_id ` set (Recipe_objects db_AB)
   \<and> http_status (snd (GetRecipeShortLink_get db_AB environ0 ''/api/'' (\<lambda>i. i) 5)) = 404
   \<and> get_recipe_or_404 db_link_taken 1 = Inr soup
   \<and> environ0 ''DOMEN'' = Some ''https://foodgram.example/''
   \<and> mint_token (\<lambda>i. i) = Inr ''aceg''
   \<and> filter (\<lambda>l. original_url l = get_absolute_url ''/api/'' soup) (ShortLink_objects db_link_taken)
       = []
   \<and> ''https://foodgram.example/'' @ ''s/'' @ ''aceg''
       \<in> short_link ` set (ShortLink_objects db_link_taken)
   \<and> GetRecipeShortLink_get db_link_taken environ0 ''/api/'' (\<lambda>i. i) 1
       = (db_link_taken, Inl IntegrityError)"
proof -
  have a: "snd (GetRecipeShortLink_get db_AB environ0 ''/api/'' (\<lambda>i. i) 1)
     = Inr (Response (ShortLinkData ''https://foodgram.example/s/aceg'') 200)"
    by code_simp
  have b: "5 \<notin> recipe_id ` set (Recipe_objects db_AB)"
    by (simp add: db_AB_def empty_db_def soup_def)
  have g: "get_recipe_or_404 db_link_taken 1 = Inr soup"
    by code_simp
  have e: "environ0 ''DOMEN'' = Some ''https://foodgram.example/''"
    by (simp add: environ0_def)
  have m: "mint_token (\<lambda>i. i) = Inr ''aceg''"
    by code_simp
  have f: "filter (\<lambda>l. original_url l = get_absolute_url ''/api/'' soup)
             (ShortLink_objects db_link_taken) = []"
    by code_simp
  have c: "''https://foodgram.example/'' @ ''s/'' @ ''aceg''
             \<in> short_link ` set (ShortLink_objects db_link_taken)"
    by code_simp
  from short_link_idempotent[where pk = 1 and s = db_AB and environ = environ0 and api_root = "''/api/''"
        and rng = "\<lambda>i. i"
        and resp = "Response (ShortLinkData ''https://foodgram.example/s/aceg'') 200"] a
  have "GetRecipeShortLink_get (fst (GetRecipeShortLink_get db_AB environ0 ''/api/'' (\<lambda>i. i) 1))
            environ0 ''/api/'' (\<lambda>i. 7 * i + 3) 1
        = (fst (GetRecipeShortLink_get db_AB environ0 ''/api/'' (\<lambda>i. i) 1),
           Inr (Response (ShortLinkData ''https://foodgram.example/s/aceg'') 200))"
    by blast
  moreover from short_link_idempotent[where pk = 5 and s = db_AB and environ = environ0
        and api_root = "''/api/''" and rng = "\<lambda>i. i"] b
  have "http_status (snd (GetRecipeShortLink_get db_AB environ0 ''/api/'' (\<lambda>i. i) 5)) = 404"
    by blast
  moreover from short_link_idempotent[where pk = 1 and s = db_link_taken and environ = environ0
        and api_root = "''/api/''" and rng = "\<lambda>i. i" and recipe = soup
        and domen = "''https://foodgram.example/''" and token = "''aceg''"] g e m f c
  have "GetRecipeShortLink_get db_link_taken environ0 ''/api/'' (\<lambda>i. i) 1
          = (db_link_taken, Inl IntegrityError)"
    by blast
  ultimately show ?thesis using a b g e m f c by simp
qed



end
